theory Spec2Isabelle
  imports Main "HOL-Library.Word"
begin

unbundle bit_operations_syntax

section \<open>Data model\<close>

text \<open>
  The embedding follows the Go packages \<open>crtauth\<close> and \<open>cmd\<close>. Everything the code
  obtains from outside the repository (the Go standard library, the operating system,
  the entropy source, the clock) is a field of the record \<open>env\<close>; every call that has
  an effect outside the process is appended to a trace of events, and the answer of the
  environment to a call may depend on the trace so far. Objects reached through Go
  pointers (\<open>*Pair\<close>, \<open>*x509.Certificate\<close>) live in two stores indexed by address;
  a pointer is \<open>nat option\<close>, \<open>None\<close> being \<open>nil\<close>. A Go \<open>error\<close> is its message.
\<close>

type_synonym bytes = "8 word list"

text \<open>\<open>pem.Block\<close> (the headers are never read or written by the code).\<close>

record Block =
  Type :: string
  Bytes :: bytes

text \<open>\<open>pkix.Name\<close>, the two fields the code sets; the name suffix tells them from the
  fields of \<open>Template\<close>.\<close>

record Name =
  Organization_n :: "string list"
  CommonName_n :: string

text \<open>\<open>x509.Certificate\<close>, the fields the code reads or writes. Times are instants in
  nanoseconds, \<open>x509.KeyUsage\<close> is the Go \<open>int\<close> bit mask.\<close>

record Certificate =
  Raw :: bytes
  SerialNumber :: "int option"
  Issuer :: Name
  Subject :: Name
  NotBefore :: int
  NotAfter :: int
  KeyUsage :: int
  ExtKeyUsage :: "int list"
  BasicConstraintsValid :: bool
  IsCA :: bool
  DNSNames :: "string list"
  IPAddresses :: "bytes list"

datatype PrivateKey = RSAPrivateKey bytes | ECDSAPrivateKey bytes

datatype PublicKey = RSAPublicKey bytes | ECDSAPublicKey bytes

datatype Curve = P224 | P256 | P384 | P521

record Pair =
  Cert :: "nat option"
  Key :: "PrivateKey option"
  KeyBits_p :: int

record Template =
  Organization :: string
  CommonName :: string
  HostNames :: "string list"
  ValidForDays :: int
  KeyBits :: int

record CA =
  CAPair :: "nat option"
  CertFileName :: string
  KeyFileName :: string

datatype OpenFlag = O_RDWR | O_CREATE | O_TRUNC

datatype event =
    EvRandSerial
  | EvNow
  | EvECGenerateKey "Curve option"
  | EvRSAGenerateKey int
  | EvCreateCertificate Certificate Certificate "PublicKey option" PrivateKey
  | EvStat string
  | EvMkdirAll string nat
  | EvOpenFile string "OpenFlag set" nat
  | EvOpen string
  | EvReadAll string
  | EvEncode string Block
  | EvClose string
  | EvExec string "string list"
  | EvPrintf string

text \<open>A function that returns a Go \<open>error\<close> returns \<open>Error msg\<close>; a nil dereference
  or a call through a nil interface is \<open>Panic\<close>.\<close>

datatype failure = Error string | Panic

text \<open>
  The environment. \<open>randSerial\<close>, \<open>publicKey\<close> and \<open>pemBlockForKey\<close> are functions of
  package \<open>crtauth\<close> whose source is not part of the files at hand; the others belong to
  the Go standard library or the operating system. A file handle is the path it was
  opened with. The bytes read from a stream are represented by the list of PEM blocks
  that successive calls of \<open>pem.Decode\<close> find in them. The last two fields are
  \<open>strings.ToUpper\<close> and \<open>strings.TrimSpace\<close> on text that is not pure ASCII, where
  they follow the Unicode tables.
\<close>

record env =
  GOOS :: string
  randSerial :: "event list \<Rightarrow> string + int"
  Now :: "event list \<Rightarrow> int"
  ParseIP :: "string \<Rightarrow> bytes option"
  ecdsaGenerateKey :: "event list \<Rightarrow> Curve \<Rightarrow> string + PrivateKey"
  rsaGenerateKey :: "event list \<Rightarrow> int \<Rightarrow> string + PrivateKey"
  publicKey :: "PrivateKey option \<Rightarrow> PublicKey option"
  pemBlockForKey :: "PrivateKey option \<Rightarrow> string + Block"
  CreateCertificate :: "event list \<Rightarrow> Certificate \<Rightarrow> Certificate \<Rightarrow> PublicKey option
                         \<Rightarrow> PrivateKey \<Rightarrow> string + bytes"
  ParseCertificate :: "bytes \<Rightarrow> string + Certificate"
  ParsePKCS1PrivateKey :: "bytes \<Rightarrow> string + PrivateKey"
  ParseECPrivateKey :: "bytes \<Rightarrow> string + PrivateKey"
  StatIsNotExist :: "event list \<Rightarrow> string \<Rightarrow> bool"
  MkdirAll :: "event list \<Rightarrow> string \<Rightarrow> nat \<Rightarrow> string option"
  OpenFile :: "event list \<Rightarrow> string \<Rightarrow> OpenFlag set \<Rightarrow> nat \<Rightarrow> string option"
  Open :: "event list \<Rightarrow> string \<Rightarrow> string option"
  ReadAll :: "event list \<Rightarrow> string \<Rightarrow> string + Block list"
  pemEncode :: "event list \<Rightarrow> string \<Rightarrow> Block \<Rightarrow> string option"
  cmdRun :: "event list \<Rightarrow> string \<Rightarrow> string list \<Rightarrow> string option"
  filepathJoin :: "string \<Rightarrow> string \<Rightarrow> string"
  filepathDir :: "string \<Rightarrow> string"
  unicodeToUpper :: "string \<Rightarrow> string"
  unicodeTrimSpace :: "string \<Rightarrow> string"

record state =
  trace :: "event list"
  pairs :: "Pair list"
  certs :: "Certificate list"

definition emit :: "event \<Rightarrow> state \<Rightarrow> state" where
  "emit ev s = s\<lparr>trace := trace s @ [ev]\<rparr>"

definition closeF :: "string \<Rightarrow> state \<Rightarrow> state" where
  "closeF f s = emit (EvClose f) s"

definition allocCert :: "Certificate \<Rightarrow> state \<Rightarrow> nat \<times> state" where
  "allocCert c s = (length (certs s), s\<lparr>certs := certs s @ [c]\<rparr>)"

definition allocPair :: "Pair \<Rightarrow> state \<Rightarrow> nat \<times> state" where
  "allocPair p s = (length (pairs s), s\<lparr>pairs := pairs s @ [p]\<rparr>)"

text \<open>Dereferencing: \<open>None\<close> for \<open>nil\<close> (and for an address outside the store, which Go
  cannot produce).\<close>

definition pairAt :: "state \<Rightarrow> nat option \<Rightarrow> Pair option" where
  "pairAt s p = (case p of None \<Rightarrow> None
                 | Some a \<Rightarrow> if a < length (pairs s) then Some (pairs s ! a) else None)"

definition certAt :: "state \<Rightarrow> nat option \<Rightarrow> Certificate option" where
  "certAt s c = (case c of None \<Rightarrow> None
                 | Some a \<Rightarrow> if a < length (certs s) then Some (certs s ! a) else None)"

definition updCert :: "nat \<Rightarrow> (Certificate \<Rightarrow> Certificate) \<Rightarrow> state \<Rightarrow> state" where
  "updCert a f s = s\<lparr>certs := (certs s)[a := f (certs s ! a)]\<rparr>"

definition updPair :: "nat \<Rightarrow> (Pair \<Rightarrow> Pair) \<Rightarrow> state \<Rightarrow> state" where
  "updPair a f s = s\<lparr>pairs := (pairs s)[a := f (pairs s ! a)]\<rparr>"

text \<open>The zero values \<open>x509.Certificate{}\<close> and \<open>Pair{}\<close>.\<close>

definition zeroName :: Name where
  "zeroName = \<lparr>Organization_n = [], CommonName_n = []\<rparr>"

definition zeroCertificate :: Certificate where
  "zeroCertificate = \<lparr>Raw = [], SerialNumber = None, Issuer = zeroName, Subject = zeroName,
     NotBefore = 0, NotAfter = 0, KeyUsage = 0, ExtKeyUsage = [],
     BasicConstraintsValid = False, IsCA = False, DNSNames = [], IPAddresses = []\<rparr>"

definition zeroPair :: Pair where
  "zeroPair = \<lparr>Cert = None, Key = None, KeyBits_p = 0\<rparr>"

text \<open>The constants of \<open>crypto/x509\<close> the code uses.\<close>

definition KeyUsageDigitalSignature :: int where "KeyUsageDigitalSignature = 1"
definition KeyUsageKeyEncipherment :: int where "KeyUsageKeyEncipherment = 4"
definition KeyUsageCertSign :: int where "KeyUsageCertSign = 32"
definition KeyUsageCRLSign :: int where "KeyUsageCRLSign = 64"
definition ExtKeyUsageServerAuth :: int where "ExtKeyUsageServerAuth = 1"

section \<open>Strings\<close>

text \<open>
  \<open>strings.ToUpper\<close> and \<open>strings.TrimSpace\<close> work on runes. On a string of ASCII
  bytes only, \<open>ToUpper\<close> maps the letters a to z and \<open>TrimSpace\<close> removes the leading and
  trailing bytes among tab, line feed, vertical tab, form feed, carriage return and space;
  this is what the functions compute here. On any other string the result is that of the
  library, which the environment supplies (a label with the dotless i, U+0131, has the
  upper case I, and the no-break space U+00A0 is white space). \<open>strings.HasPrefix\<close> and
  \<open>strconv.Atoi\<close> for a 64-bit \<open>int\<close> work on bytes.
\<close>

definition isASCII :: "char \<Rightarrow> bool" where
  "isASCII c = ((of_char c :: nat) < 128)"

definition toUpperChar :: "char \<Rightarrow> char" where
  "toUpperChar c = (let n = (of_char c :: nat)
                    in if 97 \<le> n \<and> n \<le> 122 then char_of (n - 32) else c)"

definition ToUpper :: "env \<Rightarrow> string \<Rightarrow> string" where
  "ToUpper E s = (if list_all isASCII s then map toUpperChar s else unicodeToUpper E s)"

definition isSpace :: "char \<Rightarrow> bool" where
  "isSpace c = (let n = (of_char c :: nat) in (9 \<le> n \<and> n \<le> 13) \<or> n = 32)"

definition TrimSpace :: "env \<Rightarrow> string \<Rightarrow> string" where
  "TrimSpace E s =
     (if list_all isASCII s then rev (dropWhile isSpace (rev (dropWhile isSpace s)))
      else unicodeTrimSpace E s)"

definition HasPrefix :: "string \<Rightarrow> string \<Rightarrow> bool" where
  "HasPrefix s p = (take (length p) s = p)"

definition digitOf :: "char \<Rightarrow> nat option" where
  "digitOf c = (let n = (of_char c :: nat)
                in if 48 \<le> n \<and> n \<le> 57 then Some (n - 48) else None)"

fun digitsVal :: "string \<Rightarrow> nat \<Rightarrow> nat option" where
  "digitsVal [] acc = Some acc"
| "digitsVal (c # cs) acc =
     (case digitOf c of None \<Rightarrow> None | Some d \<Rightarrow> digitsVal cs (10 * acc + d))"

definition Atoi :: "string \<Rightarrow> string + int" where
  "Atoi s =
     (let neg = (take 1 s = ''-'');
          body = (if take 1 s = ''-'' \<or> take 1 s = ''+'' then drop 1 s else s)
      in if body = [] then Inl ''invalid syntax''
         else case digitsVal body 0 of
                None \<Rightarrow> Inl ''invalid syntax''
              | Some n \<Rightarrow>
                  (let v = (if neg then - int n else int n)
                   in if v < - (2 ^ 63) \<or> 2 ^ 63 - 1 < v then Inl ''value out of range''
                      else Inr v))"

definition quote :: string where
  "quote = [CHR 0x27]"

section \<open>crtauth/util.go\<close>

definition pemBlockForCert :: "Certificate \<Rightarrow> Block" where
  "pemBlockForCert cert = \<lparr>Type = ''CERTIFICATE'', Bytes = Raw cert\<rparr>"

text \<open>The loop of \<open>readPEMCert\<close>: \<open>pem.Decode\<close> yields the next block and the rest, or
  nil when no block is left.\<close>

fun scanPEMCert :: "env \<Rightarrow> Block list \<Rightarrow> string + Certificate" where
  "scanPEMCert E [] = Inl ''CERTIFICATE block not found''"
| "scanPEMCert E (block # rest) =
     (let blockType = TrimSpace E (ToUpper E (Type block))
      in if blockType = ''CERTIFICATE'' then ParseCertificate E (Bytes block)
         else scanPEMCert E rest)"

definition readPEMCert :: "env \<Rightarrow> string \<Rightarrow> state \<Rightarrow> (string + Certificate) \<times> state" where
  "readPEMCert E cert s =
     (case ReadAll E (trace s) cert of
        Inl err \<Rightarrow> (Inl (''could not read cert PEM: '' @ err), emit (EvReadAll cert) s)
      | Inr pemBytes \<Rightarrow> (scanPEMCert E pemBytes, emit (EvReadAll cert) s))"

fun scanPEMKey :: "env \<Rightarrow> Block list \<Rightarrow> string + PrivateKey" where
  "scanPEMKey E [] = Inl ''PRIVATE KEY block not found''"
| "scanPEMKey E (block # rest) =
     (let blockType = TrimSpace E (ToUpper E (Type block))
      in if blockType = ''RSA PRIVATE KEY'' then ParsePKCS1PrivateKey E (Bytes block)
         else if blockType = ''EC PRIVATE KEY'' then ParseECPrivateKey E (Bytes block)
         else scanPEMKey E rest)"

definition readPEMKey :: "env \<Rightarrow> string \<Rightarrow> state \<Rightarrow> (string + PrivateKey) \<times> state" where
  "readPEMKey E cert s =
     (case ReadAll E (trace s) cert of
        Inl err \<Rightarrow> (Inl (''could not read key PEM: '' @ err), emit (EvReadAll cert) s)
      | Inr pemBytes \<Rightarrow> (scanPEMKey E pemBytes, emit (EvReadAll cert) s))"

text \<open>\<open>time.Duration\<close> is a signed 64-bit count of nanoseconds; the conversion and both
  multiplications wrap around. \<open>time.Hour\<close> is 3600000000000.\<close>

definition Hour :: "64 word" where
  "Hour = 3600000000000"

definition daysToDuration :: "int \<Rightarrow> 64 word" where
  "daysToDuration days = word_of_int days * 24 * Hour"

text \<open>\<open>Time.Add\<close> on instants.\<close>

definition timeAdd :: "int \<Rightarrow> 64 word \<Rightarrow> int" where
  "timeAdd t d = t + sint d"

definition genPrivKey :: "env \<Rightarrow> int \<Rightarrow> state \<Rightarrow> (failure + PrivateKey) \<times> state" where
  "genPrivKey E bits s =
     (if bits < 1024 then
        (let ec = (if bits = 224 then Some P224
                   else if bits = 256 then Some P256
                   else if bits = 384 then Some P384
                   else if bits = 521 then Some P521
                   else None)
         in case ec of
              None \<Rightarrow> (Inl Panic, emit (EvECGenerateKey None) s)
            | Some c \<Rightarrow>
                (case ecdsaGenerateKey E (trace s) c of
                   Inl err \<Rightarrow> (Inl (Error (''failed to generate private key: '' @ err)),
                               emit (EvECGenerateKey ec) s)
                 | Inr priv \<Rightarrow> (Inr priv, emit (EvECGenerateKey ec) s)))
      else
        (case rsaGenerateKey E (trace s) bits of
           Inl err \<Rightarrow> (Inl (Error (''failed to generate private key: '' @ err)),
                       emit (EvRSAGenerateKey bits) s)
         | Inr priv \<Rightarrow> (Inr priv, emit (EvRSAGenerateKey bits) s)))"

definition ensureDirExists :: "env \<Rightarrow> string \<Rightarrow> nat \<Rightarrow> state \<Rightarrow> string option \<times> state" where
  "ensureDirExists E dir perm s =
     (if StatIsNotExist E (trace s) dir then
        (let s1 = emit (EvStat dir) s
         in case MkdirAll E (trace s1) dir perm of
              Some err \<Rightarrow> (Some (''cannot create directory '' @ dir @ '': '' @ err),
                           emit (EvMkdirAll dir perm) s1)
            | None \<Rightarrow> (None, emit (EvMkdirAll dir perm) s1))
      else (None, emit (EvStat dir) s))"

definition mkdirAndCreateFile ::
  "env \<Rightarrow> string \<Rightarrow> nat \<Rightarrow> nat \<Rightarrow> state \<Rightarrow> (string + string) \<times> state" where
  "mkdirAndCreateFile E name dirPerm filePerm s =
     (case ensureDirExists E (filepathDir E name) dirPerm s of
        (Some err, s1) \<Rightarrow> (Inl (''file '' @ name @ '' not created: '' @ err), s1)
      | (None, s1) \<Rightarrow>
          (case OpenFile E (trace s1) name {O_RDWR, O_CREATE, O_TRUNC} filePerm of
             Some err \<Rightarrow> (Inl err, emit (EvOpenFile name {O_RDWR, O_CREATE, O_TRUNC} filePerm) s1)
           | None \<Rightarrow> (Inr name, emit (EvOpenFile name {O_RDWR, O_CREATE, O_TRUNC} filePerm) s1)))"

definition restrictKeyPermissions :: "env \<Rightarrow> string \<Rightarrow> state \<Rightarrow> string option \<times> state" where
  "restrictKeyPermissions E keyPath s =
     (if GOOS E = ''windows'' then
        (let args = [keyPath, ''/reset''];
             s1 = emit (EvExec ''icacls'' args) s
         in case cmdRun E (trace s) ''icacls'' args of
              Some err \<Rightarrow> (Some err, s1)
            | None \<Rightarrow>
                (let args2 = [keyPath, ''/inheritance:r'', ''/grant:r'', ''CREATOR OWNER:F'']
                 in (cmdRun E (trace s1) ''icacls'' args2, emit (EvExec ''icacls'' args2) s1)))
      else (None, s))"

section \<open>crtauth/template.go\<close>

definition NewTemplate :: Template where
  "NewTemplate = \<lparr>Organization = [], CommonName = [], HostNames = [],
     ValidForDays = 365, KeyBits = 256\<rparr>"

text \<open>The loop over \<open>t.HostNames\<close>, appending to one of the two lists of the
  certificate.\<close>

fun classifyHosts :: "env \<Rightarrow> string list \<Rightarrow> Certificate \<Rightarrow> Certificate" where
  "classifyHosts E [] cert = cert"
| "classifyHosts E (h # hs) cert =
     (case ParseIP E h of
        Some ip \<Rightarrow> classifyHosts E hs (cert\<lparr>IPAddresses := IPAddresses cert @ [ip]\<rparr>)
      | None \<Rightarrow> classifyHosts E hs (cert\<lparr>DNSNames := DNSNames cert @ [h]\<rparr>))"

definition to509 :: "env \<Rightarrow> Template \<Rightarrow> state \<Rightarrow> (string + nat) \<times> state" where
  "to509 E t s =
     (case randSerial E (trace s) of
        Inl err \<Rightarrow> (Inl (''To509() failed: '' @ err), emit EvRandSerial s)
      | Inr serial \<Rightarrow>
          (let s1 = emit EvRandSerial s;
               duration = daysToDuration (ValidForDays t);
               now = Now E (trace s1);
               s2 = emit EvNow s1;
               cert = zeroCertificate\<lparr>
                 SerialNumber := Some serial,
                 Subject := \<lparr>Organization_n = [Organization t], CommonName_n = CommonName t\<rparr>,
                 NotBefore := now,
                 NotAfter := timeAdd now duration,
                 BasicConstraintsValid := True\<rparr>;
               cert2 = (if length (HostNames t) > 0 then classifyHosts E (HostNames t) cert
                        else cert);
               (a, s3) = allocCert cert2 s2
           in (Inr a, s3)))"

section \<open>crtauth/pair.go\<close>

definition NewPair :: "env \<Rightarrow> Template \<Rightarrow> state \<Rightarrow> (failure + nat) \<times> state" where
  "NewPair E template s =
     (let (r, s1) = to509 E template s;
          (cert, s2) = (case r of Inl err \<Rightarrow> allocCert zeroCertificate s1
                        | Inr c \<Rightarrow> (c, s1));
          (k, s3) = genPrivKey E (KeyBits template) s2
      in case k of
           Inl Panic \<Rightarrow> (Inl Panic, s3)
         | Inl (Error err) \<Rightarrow>
             (Inl (Error (''failed to generate private key for pair: '' @ err)), s3)
         | Inr key \<Rightarrow>
             (let (p, s4) = allocPair \<lparr>Cert = Some cert, Key = Some key,
                                        KeyBits_p = KeyBits template\<rparr> s3
              in (Inr p, s4)))"

definition NewCAPair :: "env \<Rightarrow> Template \<Rightarrow> state \<Rightarrow> (failure + nat) \<times> state" where
  "NewCAPair E template s =
     (case NewPair E template s of
        (Inl err, s1) \<Rightarrow> (Inl err, s1)
      | (Inr pair, s1) \<Rightarrow>
          (case pairAt s1 (Some pair) of
             None \<Rightarrow> (Inl Panic, s1)
           | Some pr \<Rightarrow>
               (case Cert pr of
                  None \<Rightarrow> (Inl Panic, s1)
                | Some c \<Rightarrow>
                    (Inr pair,
                     updCert c (\<lambda>x. x\<lparr>KeyUsage := KeyUsage x OR
                         (KeyUsageDigitalSignature OR KeyUsageCertSign OR KeyUsageCRLSign)\<rparr>)
                       (updCert c (\<lambda>x. x\<lparr>IsCA := True\<rparr>) s1)))))"

text \<open>A nil slice and an empty one are both the empty list, so the test of
  \<open>ExtKeyUsage\<close> against nil before the \<open>append\<close> has no counterpart.\<close>

definition NewServerPair :: "env \<Rightarrow> Template \<Rightarrow> state \<Rightarrow> (failure + nat) \<times> state" where
  "NewServerPair E template s =
     (case NewPair E template s of
        (Inl err, s1) \<Rightarrow> (Inl err, s1)
      | (Inr pair, s1) \<Rightarrow>
          (case pairAt s1 (Some pair) of
             None \<Rightarrow> (Inl Panic, s1)
           | Some pr \<Rightarrow>
               (case Cert pr of
                  None \<Rightarrow> (Inl Panic, s1)
                | Some c \<Rightarrow>
                    (Inr pair,
                     updCert c (\<lambda>x. x\<lparr>ExtKeyUsage := ExtKeyUsage x @ [ExtKeyUsageServerAuth]\<rparr>)
                       (updCert c (\<lambda>x. x\<lparr>KeyUsage := KeyUsage x OR
                           (KeyUsageKeyEncipherment OR KeyUsageDigitalSignature)\<rparr>) s1)))))"

text \<open>The methods take the receiver as a pointer. \<open>p.Cert = cert\<close> stores the address of
  the certificate just parsed; with a nil receiver the assignment panics.\<close>

definition LoadCert :: "env \<Rightarrow> nat option \<Rightarrow> string \<Rightarrow> state \<Rightarrow> failure option \<times> state" where
  "LoadCert E p reader s =
     (case readPEMCert E reader s of
        (Inl err, s1) \<Rightarrow> (Some (Error (''failed reading certificate: '' @ err)), s1)
      | (Inr cert, s1) \<Rightarrow>
          (case p of
             None \<Rightarrow> (Some Panic, s1)
           | Some a \<Rightarrow>
               (if a < length (pairs s1) then
                  (let (c, s2) = allocCert cert s1
                   in (None, updPair a (\<lambda>x. x\<lparr>Cert := Some c\<rparr>) s2))
                else (Some Panic, s1))))"

definition LoadKey :: "env \<Rightarrow> nat option \<Rightarrow> string \<Rightarrow> state \<Rightarrow> failure option \<times> state" where
  "LoadKey E p reader s =
     (case readPEMKey E reader s of
        (Inl err, s1) \<Rightarrow> (Some (Error (''failed reading key: '' @ err)), s1)
      | (Inr key, s1) \<Rightarrow>
          (case p of
             None \<Rightarrow> (Some Panic, s1)
           | Some a \<Rightarrow>
               (if a < length (pairs s1) then
                  (None, updPair a (\<lambda>x. x\<lparr>Key := Some key\<rparr>) s1)
                else (Some Panic, s1))))"

text \<open>The deferred \<open>Close\<close> calls run when the function returns, last deferred first.\<close>

definition LoadFiles ::
  "env \<Rightarrow> nat option \<Rightarrow> string \<Rightarrow> string \<Rightarrow> state \<Rightarrow> failure option \<times> state" where
  "LoadFiles E p certPath keyPath s =
     (case Open E (trace s) certPath of
        Some err \<Rightarrow>
          (Some (Error (''failed opening cert file '' @ certPath @ '': '' @ err)),
           emit (EvOpen certPath) s)
      | None \<Rightarrow>
          (case LoadCert E p certPath (emit (EvOpen certPath) s) of
             (Some err, s2) \<Rightarrow> (Some err, closeF certPath s2)
           | (None, s2) \<Rightarrow>
               (case Open E (trace s2) keyPath of
                  Some err \<Rightarrow>
                    (Some (Error (''failed opening key file '' @ keyPath @ '': '' @ err)),
                     closeF certPath (emit (EvOpen keyPath) s2))
                | None \<Rightarrow>
                    (case LoadKey E p keyPath (emit (EvOpen keyPath) s2) of
                       (Some err, s4) \<Rightarrow> (Some err, closeF certPath (closeF keyPath s4))
                     | (None, s4) \<Rightarrow> (None, closeF certPath (closeF keyPath s4))))))"

definition WriteCert :: "env \<Rightarrow> nat option \<Rightarrow> string \<Rightarrow> state \<Rightarrow> failure option \<times> state" where
  "WriteCert E p writer s =
     (case pairAt s p of
        None \<Rightarrow> (Some Panic, s)
      | Some pr \<Rightarrow>
          (case certAt s (Cert pr) of
             None \<Rightarrow> (Some Panic, s)
           | Some cert \<Rightarrow>
               (let certPem = pemBlockForCert cert
                in case pemEncode E (trace s) writer certPem of
                     Some err \<Rightarrow> (Some (Error (''failed to write certificate as PEM: '' @ err)),
                                  emit (EvEncode writer certPem) s)
                   | None \<Rightarrow> (None, emit (EvEncode writer certPem) s))))"

definition WriteKey :: "env \<Rightarrow> nat option \<Rightarrow> string \<Rightarrow> state \<Rightarrow> failure option \<times> state" where
  "WriteKey E p writer s =
     (case pairAt s p of
        None \<Rightarrow> (Some Panic, s)
      | Some pr \<Rightarrow>
          (case pemBlockForKey E (Key pr) of
             Inl err \<Rightarrow> (Some (Error (''failed to marshal private key: '' @ err)), s)
           | Inr keyPem \<Rightarrow>
               (case pemEncode E (trace s) writer keyPem of
                  Some err \<Rightarrow> (Some (Error (''failed to write key: '' @ err)),
                               emit (EvEncode writer keyPem) s)
                | None \<Rightarrow> (None, emit (EvEncode writer keyPem) s))))"

text \<open>A failure wrapped by \<open>fmt.Errorf\<close>; a panic passes through.\<close>

definition wrapf :: "string \<Rightarrow> failure \<Rightarrow> failure" where
  "wrapf pre f = (case f of Error err \<Rightarrow> Error (pre @ err) | Panic \<Rightarrow> Panic)"

definition WriteFiles ::
  "env \<Rightarrow> nat option \<Rightarrow> string \<Rightarrow> string \<Rightarrow> state \<Rightarrow> failure option \<times> state" where
  "WriteFiles E p certPath keyPath s =
     (case mkdirAndCreateFile E certPath 448 420 s of
        (Inl err, s1) \<Rightarrow>
          (Some (Error (''failed to create cert file '' @ certPath @ '': '' @ err)), s1)
      | (Inr certFile, s1) \<Rightarrow>
          (case WriteCert E p certFile s1 of
             (Some err, s2) \<Rightarrow>
               (Some (wrapf (''failed to write to cert file '' @ certPath @ '': '') err),
                closeF certFile s2)
           | (None, s2) \<Rightarrow>
               (case mkdirAndCreateFile E keyPath 448 384 s2 of
                  (Inl err, s3) \<Rightarrow>
                    (Some (Error (''failed to create key file '' @ keyPath @ '': '' @ err)),
                     closeF certFile s3)
                | (Inr keyFile, s3) \<Rightarrow>
                    (case WriteKey E p keyFile s3 of
                       (Some err, s4) \<Rightarrow>
                         (Some (wrapf (''failed to write to key file '' @ keyPath @ '': '') err),
                          closeF certFile (closeF keyFile s4))
                     | (None, s4) \<Rightarrow>
                         (case restrictKeyPermissions E keyPath (closeF keyFile s4) of
                            (Some err, s6) \<Rightarrow>
                              (Some (Error (''failed to restrict permissions to '' @ keyPath
                                            @ '' file: '' @ err)),
                               closeF certFile (closeF keyFile s6))
                          | (None, s6) \<Rightarrow> (None, closeF certFile (closeF keyFile s6)))))))"

definition PubKey :: "env \<Rightarrow> Pair \<Rightarrow> PublicKey option" where
  "PubKey E p = publicKey E (Key p)"

text \<open>\<open>SignWith\<close> tests the parent first; the assignment to \<open>p.Cert.Issuer\<close> then
  dereferences the receiver and its certificate, and panics when either is nil. The two
  certificates are read through their pointers when \<open>x509.CreateCertificate\<close> is called,
  after the updates, so a parent that shares its certificate with the receiver is passed
  the updated one. The receiver and the parent are the identical pair when the two
  pointers are equal.\<close>

definition caKeyUsages :: int where
  "caKeyUsages = KeyUsageDigitalSignature OR KeyUsageCertSign OR KeyUsageCRLSign"

definition SignWith :: "env \<Rightarrow> nat option \<Rightarrow> nat option \<Rightarrow> state \<Rightarrow> failure option \<times> state" where
  "SignWith E p parent s =
     (case pairAt s parent of
        None \<Rightarrow> (Some Panic, s)
      | Some par \<Rightarrow>
          (case (Cert par, Key par) of
             (Some pc, Some parentKey) \<Rightarrow>
               (case (p, pairAt s p, certAt s (Some pc)) of
                  (Some a, Some pr, Some parCert) \<Rightarrow>
                    (case (Cert pr, certAt s (Cert pr)) of
                       (Some c, Some _) \<Rightarrow>
                         (let s1 = updCert c (\<lambda>x. x\<lparr>Issuer := Subject parCert\<rparr>) s;
                              s2 = (if p = parent then
                                      updCert c (\<lambda>x. x\<lparr>KeyUsage := KeyUsage x OR caKeyUsages\<rparr>)
                                        (updCert c (\<lambda>x. x\<lparr>IsCA := True\<rparr>) s1)
                                    else s1);
                              pubKey = publicKey E (Key pr);
                              tmpl = certs s2 ! c;
                              parentCert = certs s2 ! pc;
                              s3 = emit (EvCreateCertificate tmpl parentCert pubKey parentKey) s2
                          in case CreateCertificate E (trace s2) tmpl parentCert pubKey parentKey of
                               Inl err \<Rightarrow>
                                 (Some (Error (''failed to create signed certificate: '' @ err)),
                                  s3)
                             | Inr derBytes \<Rightarrow>
                                 (case ParseCertificate E derBytes of
                                    Inl err \<Rightarrow>
                                      (Some (Error (''failed to parse generated certificate: ''
                                                    @ err)), s3)
                                  | Inr cert \<Rightarrow>
                                      (let (n, s4) = allocCert cert s3
                                       in (None, updPair a (\<lambda>x. x\<lparr>Cert := Some n\<rparr>) s4))))
                     | _ \<Rightarrow> (Some Panic, s))
                | _ \<Rightarrow> (Some Panic, s))
           | _ \<Rightarrow>
               (Some (Error (''can'' @ quote @ ''t sign certificate with incomplete parent pair'')),
                s)))"

section \<open>crtauth: the certification authority\<close>

definition RootCertFileName :: string where "RootCertFileName = ''root.crt''"
definition RootKeyFileName :: string where "RootKeyFileName = ''root.key''"
definition ServerCertFileName :: string where "ServerCertFileName = ''server.crt''"
definition ServerKeyFileName :: string where "ServerKeyFileName = ''server.key''"

definition New :: "state \<Rightarrow> CA \<times> state" where
  "New s = (let (p, s1) = allocPair zeroPair s
            in (\<lparr>CAPair = Some p, CertFileName = RootCertFileName,
                 KeyFileName = RootKeyFileName\<rparr>, s1))"

definition Init :: "env \<Rightarrow> CA \<Rightarrow> Template \<Rightarrow> string \<Rightarrow> state \<Rightarrow> failure option \<times> CA \<times> state" where
  "Init E ca template dir s =
     (case NewCAPair E template s of
        (Inl err, s1) \<Rightarrow> (Some err, ca, s1)
      | (Inr pair, s1) \<Rightarrow>
          (case MkdirAll E (trace s1) dir 448 of
             Some err \<Rightarrow>
               (Some (Error (''failed to create CA directory '' @ dir @ '': '' @ err)), ca,
                emit (EvMkdirAll dir 448) s1)
           | None \<Rightarrow>
               (case SignWith E (Some pair) (Some pair) (emit (EvMkdirAll dir 448) s1) of
                  (Some err, s3) \<Rightarrow>
                    (Some (wrapf ''failed to sign certificate with CA: '' err), ca, s3)
                | (None, s3) \<Rightarrow>
                    (let certPath = filepathJoin E dir (CertFileName ca);
                         keyPath = filepathJoin E dir (KeyFileName ca)
                     in case WriteFiles E (Some pair) certPath keyPath s3 of
                          (Some err, s4) \<Rightarrow>
                            (Some (wrapf ''failed to write CA pair to files: '' err), ca, s4)
                        | (None, s4) \<Rightarrow> (None, ca\<lparr>CAPair := Some pair\<rparr>, s4)))))"

definition Load :: "env \<Rightarrow> CA \<Rightarrow> string \<Rightarrow> state \<Rightarrow> failure option \<times> state" where
  "Load E ca dir s =
     (let certPath = filepathJoin E dir (CertFileName ca);
          keyPath = filepathJoin E dir (KeyFileName ca)
      in LoadFiles E (CAPair ca) certPath keyPath s)"

section \<open>cmd/util.go and the init command\<close>

definition validKeySizes :: "string list" where
  "validKeySizes = [''P224'', ''P256'', ''P384'', ''P521'', ''1024'', ''2048'', ''3072'', ''4096'']"

definition isValidKeySize :: "string \<Rightarrow> bool" where
  "isValidKeySize keySize =
     (if keySize = ''P224'' \<or> keySize = ''P256'' \<or> keySize = ''P384'' \<or> keySize = ''P521''
         \<or> keySize = ''1024'' \<or> keySize = ''2048'' \<or> keySize = ''3072'' \<or> keySize = ''4096''
      then True else False)"

definition parseKeyBits :: "env \<Rightarrow> string \<Rightarrow> string + int" where
  "parseKeyBits E keySize =
     (if \<not> isValidKeySize keySize then
        Inl (''invalid key size '' @ quote @ keySize @ quote)
      else
        (let keySize2 = (if HasPrefix (ToUpper E keySize) ''P'' then drop 1 keySize else keySize)
         in case Atoi keySize2 of
              Inl err \<Rightarrow> Inl (''key size '' @ quote @ keySize2 @ quote
                              @ '' cannot be converted to integer value'')
            | Inr numBits \<Rightarrow> Inr numBits))"

record initFlags =
  organization :: string
  commonName :: string
  validForDays :: int
  keySize :: string
  caDir :: string

text \<open>How the process ends: \<open>os.Exit\<close> with a code, the command function returning, or a
  panic.\<close>

datatype ending = Exit int | Returned | Panicked

text \<open>The \<open>Run\<close> function of \<open>initCmd\<close>. A panic inside \<open>ca.Init\<close> is not an error value
  and ends the process.\<close>

definition initRun :: "env \<Rightarrow> initFlags \<Rightarrow> state \<Rightarrow> ending \<times> state" where
  "initRun E fl s =
     (case parseKeyBits E (keySize fl) of
        Inl err \<Rightarrow> (Exit 1, emit (EvPrintf (''Bad key size: '' @ err @ [CHR 0x0A])) s)
      | Inr keyBits \<Rightarrow>
          (let s1 = emit (EvPrintf (''Creating a new certificate authority at '' @ caDir fl
                                    @ [CHR 0x0A])) s;
               template = NewTemplate\<lparr>Organization := organization fl,
                                      CommonName := commonName fl,
                                      ValidForDays := validForDays fl,
                                      KeyBits := keyBits\<rparr>;
               (ca, s2) = New s1
           in case Init E ca template (caDir fl) s2 of
                (Some Panic, ca2, s3) \<Rightarrow> (Panicked, s3)
              | (Some (Error err), ca2, s3) \<Rightarrow>
                  (Exit 1, emit (EvPrintf (''Could not create certification authority: '' @ err
                                           @ [CHR 0x0A])) s3)
              | (None, ca2, s3) \<Rightarrow>
                  (Returned,
                   emit (EvPrintf (''Done'' @ [CHR 0x0A]))
                     (emit (EvPrintf (''Successfully created certification authority.''
                                      @ [CHR 0x0A])) s3))))"

text \<open>The flags of the generate command (the suffix tells them from those of init), and
  \<open>strings.Split\<close> at commas.\<close>

record serverFlags =
  host :: string
  organization_s :: string
  commonName_s :: string
  validForDays_s :: int
  keySize_s :: string
  outDir :: string
  caDir_s :: string

fun splitComma :: "string \<Rightarrow> string list" where
  "splitComma [] = [[]]"
| "splitComma (c # cs) =
     (if c = CHR '','' then [] # splitComma cs
      else (case splitComma cs of [] \<Rightarrow> [[c]] | x # xs \<Rightarrow> (c # x) # xs))"

text \<open>The end of the \<open>Run\<close> function of \<open>genCmd\<close>, from the writing of the files on.\<close>

definition genWrite :: "env \<Rightarrow> serverFlags \<Rightarrow> nat \<Rightarrow> state \<Rightarrow> ending \<times> state" where
  "genWrite E server pair s =
     (let certPath = filepathJoin E (outDir server) ServerCertFileName;
          keyPath = filepathJoin E (outDir server) ServerKeyFileName
      in case WriteFiles E (Some pair) certPath keyPath s of
           (Some Panic, s1) \<Rightarrow> (Panicked, s1)
         | (Some (Error err), s1) \<Rightarrow>
             (Exit 1, emit (EvPrintf (''Could not write cert/key pair to files: '' @ err
                                      @ [CHR 0x0A])) s1)
         | (None, s1) \<Rightarrow>
             (Returned,
              emit (EvPrintf (''Done'' @ [CHR 0x0A]))
                (emit (EvPrintf (''- Private key: '' @ keyPath @ '':'' @ [CHR 0x0A]))
                   (emit (EvPrintf (''- Certificate: '' @ certPath @ '':'' @ [CHR 0x0A]))
                      (emit (EvPrintf (''Successfully created server pair at:'' @ [CHR 0x0A]))
                         s1)))))"

text \<open>The \<open>Run\<close> function of \<open>genCmd\<close>. The package variables \<open>in\<close> (the flags of the
  init command) and \<open>server\<close> are both in scope; \<open>selfSigned\<close> tells whether the flag
  \<open>--self-signed\<close> was given. The key size is parsed from \<open>in.keySize\<close>, as the source
  has it; \<open>server.keySize\<close>, to which \<open>--key-size\<close> is bound, is not read.\<close>

definition genRun :: "env \<Rightarrow> initFlags \<Rightarrow> serverFlags \<Rightarrow> bool \<Rightarrow> state \<Rightarrow> ending \<times> state" where
  "genRun E inFl server selfSigned s =
     (if caDir_s server = [] \<and> \<not> selfSigned then
        (Exit 1, emit (EvPrintf (''At least one of --ca-dir or --self-signed arguments is required''
                                 @ [CHR 0x0A])) s)
      else
        (case parseKeyBits E (keySize inFl) of
           Inl err \<Rightarrow> (Exit 1, emit (EvPrintf (''Bad key size: '' @ err @ [CHR 0x0A])) s)
         | Inr keyBits \<Rightarrow>
             (let template = NewTemplate\<lparr>Organization := organization_s server,
                                           CommonName := commonName_s server,
                                           HostNames := splitComma (host server),
                                           ValidForDays := validForDays_s server,
                                           KeyBits := keyBits\<rparr>
              in case NewServerPair E template s of
                   (Inl Panic, s1) \<Rightarrow> (Panicked, s1)
                 | (Inl (Error err), s1) \<Rightarrow>
                     (Exit 1, emit (EvPrintf (''Could not create cert/key pair: '' @ err
                                              @ [CHR 0x0A])) s1)
                 | (Inr pair, s1) \<Rightarrow>
                     (if selfSigned then
                        (case SignWith E (Some pair) (Some pair)
                                (emit (EvPrintf (''Creating a self-signed certificate''
                                                 @ [CHR 0x0A])) s1) of
                           (Some Panic, s2) \<Rightarrow> (Panicked, s2)
                         | (Some (Error err), s2) \<Rightarrow>
                             (Exit 1, emit (EvPrintf (''Could not self-sign certificate: '' @ err
                                                      @ [CHR 0x0A])) s2)
                         | (None, s2) \<Rightarrow> genWrite E server pair s2)
                      else
                        (let s2 = emit (EvPrintf (''Creating a certificate signed by the CA at ''
                                                  @ caDir_s server @ [CHR 0x0A])) s1;
                             (ca, s3) = New s2
                         in case Load E ca (caDir_s server) s3 of
                              (Some Panic, s4) \<Rightarrow> (Panicked, s4)
                            | (Some (Error err), s4) \<Rightarrow>
                                (Exit 1, emit (EvPrintf (''Could not load CA pair from directory ''
                                                         @ quote @ caDir_s server @ quote @ '': ''
                                                         @ err @ [CHR 0x0A])) s4)
                            | (None, s4) \<Rightarrow>
                                (case SignWith E (Some pair) (CAPair ca) s4 of
                                   (Some Panic, s5) \<Rightarrow> (Panicked, s5)
                                 | (Some (Error err), s5) \<Rightarrow>
                                     (Exit 1, emit (EvPrintf (''Could not sign certificate with CA: ''
                                                              @ err @ [CHR 0x0A])) s5)
                                 | (None, s5) \<Rightarrow> genWrite E server pair s5))))))"

section \<open>Properties of the environment and a sample environment\<close>

text \<open>
  What \<open>crypto/x509\<close> does, at one call, with the fields the claim about signing reads.
  The basic-constraints extension, which carries the is-CA flag, is written only when
  \<open>BasicConstraintsValid\<close> is set in the descriptor, so the parsed certificate is a CA
  certificate exactly when the descriptor has both flags. The parser reads nine key-usage
  bits. The issuer is encoded from the signer's certificate as the subject is from the
  descriptor, so the two are equal when signer and descriptor are the same certificate.
\<close>

definition x509_contract ::
  "env \<Rightarrow> event list \<Rightarrow> Certificate \<Rightarrow> Certificate \<Rightarrow> PublicKey option \<Rightarrow> PrivateKey \<Rightarrow> bool" where
  "x509_contract E tr tmpl par pub key =
     (case CreateCertificate E tr tmpl par pub key of
        Inl err \<Rightarrow> True
      | Inr der \<Rightarrow>
          (case ParseCertificate E der of
             Inl err \<Rightarrow> True
           | Inr c \<Rightarrow> IsCA c = (BasicConstraintsValid tmpl \<and> IsCA tmpl)
                       \<and> KeyUsage c = take_bit 9 (KeyUsage tmpl)
                       \<and> (if tmpl = par then Issuer c = Subject c else True)))"

text \<open>The descriptor that \<open>SignWith\<close> hands to \<open>x509.CreateCertificate\<close> when a pair
  signs itself, in terms of the certificate the pair held before.\<close>

definition selfSignDescriptor :: "Certificate \<Rightarrow> Certificate" where
  "selfSignDescriptor x =
     x\<lparr>Issuer := Subject x, IsCA := True, KeyUsage := KeyUsage x OR caKeyUsages\<rparr>"

text \<open>The key-generation events of a trace.\<close>

fun isKeyGen :: "event \<Rightarrow> bool" where
  "isKeyGen (EvECGenerateKey c) = True"
| "isKeyGen (EvRSAGenerateKey b) = True"
| "isKeyGen e = False"


fun isExec :: "event \<Rightarrow> bool" where
  "isExec (EvExec c a) = True"
| "isExec e = False"



text \<open>The label tests of the two readers.\<close>

definition isCertBlock :: "env \<Rightarrow> Block \<Rightarrow> bool" where
  "isCertBlock E b = (TrimSpace E (ToUpper E (Type b)) = ''CERTIFICATE'')"

definition isKeyBlock :: "env \<Rightarrow> Block \<Rightarrow> bool" where
  "isKeyBlock E b = (TrimSpace E (ToUpper E (Type b)) = ''RSA PRIVATE KEY''
                     \<or> TrimSpace E (ToUpper E (Type b)) = ''EC PRIVATE KEY'')"

text \<open>A sample environment on which the model is run: a Linux host with an empty
  directory tree where every system call succeeds, a directory \<open>/ca\<close> holding
  \<open>root.crt\<close> but no \<open>root.key\<close>, an x509 library with one encoding, that of a root certificate, and
  an address parser that knows two literals.\<close>

definition rootName :: Name where
  "rootName = \<lparr>Organization_n = [''Acme''], CommonName_n = ''Root CA''\<rparr>"

definition rootCert :: Certificate where
  "rootCert = \<lparr>Raw = [48, 130], SerialNumber = Some 4242, Issuer = rootName,
     Subject = rootName, NotBefore = 1000, NotAfter = 31536000000001000, KeyUsage = 97,
     ExtKeyUsage = [], BasicConstraintsValid = True, IsCA = True, DNSNames = [],
     IPAddresses = []\<rparr>"

definition sampleParseIP :: "string \<Rightarrow> bytes option" where
  "sampleParseIP h = (if h = ''10.0.0.1'' then Some [10, 0, 0, 1]
                      else if h = ''::1'' then Some [0, 0, 0, 0, 0, 0, 0, 0, 0, 0, 0, 0, 0, 0, 0, 1]
                      else None)"

definition sampleCreate ::
  "event list \<Rightarrow> Certificate \<Rightarrow> Certificate \<Rightarrow> PublicKey option \<Rightarrow> PrivateKey \<Rightarrow> string + bytes" where
  "sampleCreate tr tmpl par pub key =
     (if SerialNumber tmpl = None then Inl ''x509: no SerialNumber given''
      else Inr [48, 130])"

definition sampleParse :: "bytes \<Rightarrow> string + Certificate" where
  "sampleParse der = (if der = [48, 130] then Inr rootCert
                      else Inl ''x509: malformed certificate'')"

definition samplePublicKey :: "PrivateKey option \<Rightarrow> PublicKey option" where
  "samplePublicKey k = (case k of None \<Rightarrow> None
                        | Some (RSAPrivateKey b) \<Rightarrow> Some (RSAPublicKey b)
                        | Some (ECDSAPrivateKey b) \<Rightarrow> Some (ECDSAPublicKey b))"

definition sampleBlockForKey :: "PrivateKey option \<Rightarrow> string + Block" where
  "sampleBlockForKey k = (case k of None \<Rightarrow> Inl ''unsupported key type''
                          | Some (RSAPrivateKey b) \<Rightarrow> Inr \<lparr>Type = ''RSA PRIVATE KEY'', Bytes = b\<rparr>
                          | Some (ECDSAPrivateKey b) \<Rightarrow> Inr \<lparr>Type = ''EC PRIVATE KEY'', Bytes = b\<rparr>)"

definition sampleOpen :: "event list \<Rightarrow> string \<Rightarrow> string option" where
  "sampleOpen tr path = (if path = ''/ca/root.crt'' then None
                         else Some (''open '' @ path @ '': no such file or directory''))"

definition sampleReadAll :: "event list \<Rightarrow> string \<Rightarrow> string + Block list" where
  "sampleReadAll tr f = (if f = ''/ca/root.crt''
                         then Inr [\<lparr>Type = ''X509 CRL'', Bytes = [7]\<rparr>,
                                   \<lparr>Type = ''CERTIFICATE'', Bytes = [48, 130]\<rparr>]
                         else Inr [])"

definition sampleDir :: "string \<Rightarrow> string" where
  "sampleDir path = rev (drop 1 (dropWhile (\<lambda>c. c \<noteq> CHR ''/'') (rev path)))"

text \<open>A fragment of the Unicode tables: the dotless i (bytes C4 B1 in UTF-8) has the upper
  case I, and the no-break space (bytes C2 A0) is white space.\<close>

fun sampleToUpper :: "string \<Rightarrow> string" where
  "sampleToUpper [] = []"
| "sampleToUpper [a] = [toUpperChar a]"
| "sampleToUpper (a # b # cs) =
     (if a = CHR 0xC4 \<and> b = CHR 0xB1 then CHR ''I'' # sampleToUpper cs
      else toUpperChar a # sampleToUpper (b # cs))"

fun dropSpacesLeft :: "string \<Rightarrow> string" where
  "dropSpacesLeft [] = []"
| "dropSpacesLeft [a] = (if isSpace a then [] else [a])"
| "dropSpacesLeft (a # b # cs) =
     (if a = CHR 0xC2 \<and> b = CHR 0xA0 then dropSpacesLeft cs
      else if isSpace a then dropSpacesLeft (b # cs)
      else a # b # cs)"

text \<open>The same from the right end, on the reversed string.\<close>

fun dropSpacesRight :: "string \<Rightarrow> string" where
  "dropSpacesRight [] = []"
| "dropSpacesRight [a] = (if isSpace a then [] else [a])"
| "dropSpacesRight (a # b # cs) =
     (if a = CHR 0xA0 \<and> b = CHR 0xC2 then dropSpacesRight cs
      else if isSpace a then dropSpacesRight (b # cs)
      else a # b # cs)"

definition sampleTrimSpace :: "string \<Rightarrow> string" where
  "sampleTrimSpace s = rev (dropSpacesRight (rev (dropSpacesLeft s)))"

definition sampleEnv :: env where
  "sampleEnv = \<lparr>GOOS = ''linux'',
     randSerial = (\<lambda>tr. Inr 4242),
     Now = (\<lambda>tr. 1000),
     ParseIP = sampleParseIP,
     ecdsaGenerateKey = (\<lambda>tr c. Inr (ECDSAPrivateKey [1])),
     rsaGenerateKey = (\<lambda>tr b. Inr (RSAPrivateKey [2])),
     publicKey = samplePublicKey,
     pemBlockForKey = sampleBlockForKey,
     CreateCertificate = sampleCreate,
     ParseCertificate = sampleParse,
     ParsePKCS1PrivateKey = (\<lambda>b. Inr (RSAPrivateKey b)),
     ParseECPrivateKey = (\<lambda>b. Inr (ECDSAPrivateKey b)),
     StatIsNotExist = (\<lambda>tr d. True),
     MkdirAll = (\<lambda>tr d p. None),
     OpenFile = (\<lambda>tr n f p. None),
     Open = sampleOpen,
     ReadAll = sampleReadAll,
     pemEncode = (\<lambda>tr w b. None),
     cmdRun = (\<lambda>tr c a. None),
     filepathJoin = (\<lambda>d f. d @ ''/'' @ f),
     filepathDir = sampleDir,
     unicodeToUpper = sampleToUpper,
     unicodeTrimSpace = sampleTrimSpace\<rparr>"

text \<open>The same host with an entropy source that fails when a serial number is drawn,
  with a directory that cannot be created, and under Windows.\<close>

definition noEntropyEnv :: env where
  "noEntropyEnv = sampleEnv\<lparr>randSerial := (\<lambda>tr. Inl ''EOF'')\<rparr>"

definition readOnlyEnv :: env where
  "readOnlyEnv = sampleEnv\<lparr>MkdirAll := (\<lambda>tr d p. Some ''permission denied'')\<rparr>"

definition windowsEnv :: env where
  "windowsEnv = sampleEnv\<lparr>GOOS := ''windows''\<rparr>"

definition emptyState :: state where
  "emptyState = \<lparr>trace = [], pairs = [], certs = []\<rparr>"

definition rootTemplate :: Template where
  "rootTemplate = NewTemplate\<lparr>Organization := ''Acme'', CommonName := ''Root CA''\<rparr>"

text \<open>A state holding one pair whose certificate is an unsigned root descriptor.\<close>

definition rootState :: state where
  "rootState = \<lparr>trace = [],
     pairs = [\<lparr>Cert = Some 0, Key = Some (ECDSAPrivateKey [1]), KeyBits_p = 256\<rparr>],
     certs = [zeroCertificate\<lparr>SerialNumber := Some 4242, Subject := rootName,
                              BasicConstraintsValid := True\<rparr>]\<rparr>"

text \<open>The certificate a pair points to.\<close>

definition certOf :: "state \<Rightarrow> nat option \<Rightarrow> Certificate option" where
  "certOf s p = (case pairAt s p of None \<Rightarrow> None | Some pr \<Rightarrow> certAt s (Cert pr))"

text \<open>Sample inputs: a validity of 106752 days, a list of three hosts, a key-size token
  outside the enumeration, and the authority that \<open>New\<close> creates in the empty state.\<close>

definition longLivedTemplate :: Template where
  "longLivedTemplate = NewTemplate\<lparr>ValidForDays := 106752\<rparr>"

definition hostsTemplate :: Template where
  "hostsTemplate = NewTemplate\<lparr>HostNames := [''10.0.0.1'', ''db.internal'', ''::1'']\<rparr>"

definition badFlags :: initFlags where
  "badFlags = \<lparr>organization = ''Acme'', commonName = ''Root CA'', validForDays = 365,
     keySize = ''P512'', caDir = ''/ca''\<rparr>"

definition freshCA :: CA where
  "freshCA = fst (New emptyState)"

definition freshState :: state where
  "freshState = snd (New emptyState)"

text \<open>
  A library for the sample host that computes its answers from the descriptor, as
  \<open>crypto/x509\<close> does for the fields the claim about signing reads: the encoding holds
  the basic-constraints flag, the is-CA flag if the former is set, nine key-usage bits, the
  subject of the descriptor and, as issuer, the subject of the signer; the parser reads
  them back. A list of strings is encoded with a byte 1 before every character, a byte 2
  after every string and a byte 0 at the end.
\<close>

definition byteOfChar :: "char \<Rightarrow> 8 word" where
  "byteOfChar c = of_nat (of_char c)"

definition charOfByte :: "8 word \<Rightarrow> char" where
  "charOfByte b = char_of (unat b)"

definition encStrings :: "string list \<Rightarrow> bytes" where
  "encStrings xs = concat (map (\<lambda>s. concat (map (\<lambda>c. [1, byteOfChar c]) s) @ [2]) xs) @ [0]"

fun decStrings :: "bytes \<Rightarrow> string \<Rightarrow> string list \<Rightarrow> (string list \<times> bytes) option" where
  "decStrings [] cur acc = None"
| "decStrings [t] cur acc = (if t = 0 then Some (rev acc, []) else None)"
| "decStrings (t # b # bs) cur acc =
     (if t = 0 then Some (rev acc, b # bs)
      else if t = 2 then decStrings (b # bs) [] (rev cur # acc)
      else if t = 1 then decStrings bs (charOfByte b # cur) acc
      else None)"

definition encName :: "Name \<Rightarrow> bytes" where
  "encName n = encStrings (CommonName_n n # Organization_n n)"

definition decName :: "bytes \<Rightarrow> (Name \<times> bytes) option" where
  "decName bs = (case decStrings bs [] [] of
                   Some (cn # orgs, rest) \<Rightarrow> Some (\<lparr>Organization_n = orgs, CommonName_n = cn\<rparr>, rest)
                 | _ \<Rightarrow> None)"

definition modelCreate ::
  "event list \<Rightarrow> Certificate \<Rightarrow> Certificate \<Rightarrow> PublicKey option \<Rightarrow> PrivateKey \<Rightarrow> string + bytes" where
  "modelCreate tr tmpl par pub key =
     (if SerialNumber tmpl = None then Inl ''x509: no SerialNumber given''
      else Inr ([48,
                 (if BasicConstraintsValid tmpl then 1 else 0),
                 (if BasicConstraintsValid tmpl \<and> IsCA tmpl then 1 else 0),
                 word_of_int (KeyUsage tmpl),
                 word_of_int (drop_bit 8 (KeyUsage tmpl)) AND 1]
                @ encName (Subject tmpl) @ encName (Subject par)))"

definition modelParse :: "bytes \<Rightarrow> string + Certificate" where
  "modelParse der =
     (case der of
        t # bcv # ca # lo # hi # names \<Rightarrow>
          (if t = 48 then
             (case decName names of
                None \<Rightarrow> Inl ''x509: malformed subject''
              | Some (subj, rest) \<Rightarrow>
                  (case decName rest of
                     Some (iss, []) \<Rightarrow>
                       Inr (zeroCertificate\<lparr>Raw := der, Issuer := iss, Subject := subj,
                              KeyUsage := uint lo OR push_bit 8 (uint hi),
                              BasicConstraintsValid := (bcv = 1), IsCA := (ca = 1)\<rparr>)
                   | _ \<Rightarrow> Inl ''x509: malformed issuer''))
           else Inl ''x509: malformed certificate'')
      | _ \<Rightarrow> Inl ''x509: malformed certificate'')"

definition x509Env :: env where
  "x509Env = sampleEnv\<lparr>CreateCertificate := modelCreate, ParseCertificate := modelParse\<rparr>"

text \<open>A state holding one pair whose certificate has a serial number and a subject but
  not the basic-constraints flag, as \<open>Pair{Cert: &x509.Certificate{SerialNumber: ...,
  Subject: ...}, Key: key}\<close> has, or a pair loaded from a certificate file without the
  extension.\<close>

definition bareState :: state where
  "bareState = \<lparr>trace = [],
     pairs = [\<lparr>Cert = Some 0, Key = Some (ECDSAPrivateKey [1]), KeyBits_p = 256\<rparr>],
     certs = [zeroCertificate\<lparr>SerialNumber := Some 7, Subject := rootName\<rparr>]\<rparr>"

text \<open>The variables of package \<open>cmd\<close> when \<open>pgcrtauth generate -H db.internal -o /out
  --self-signed -K P512\<close> runs: the flags of init hold their defaults, those of generate
  hold the command line.\<close>

definition defaultInitFlags :: initFlags where
  "defaultInitFlags = \<lparr>organization = [], commonName = [], validForDays = 365,
     keySize = ''P256'', caDir = []\<rparr>"

definition badServerFlags :: serverFlags where
  "badServerFlags = \<lparr>host = ''db.internal'', organization_s = [], commonName_s = [],
     validForDays_s = 365, keySize_s = ''P512'', outDir = ''/out'', caDir_s = []\<rparr>"

section \<open>Basic facts about the state\<close>

lemmas model_defs =
  emit_def closeF_def allocCert_def allocPair_def pairAt_def certAt_def
  updCert_def updPair_def zeroName_def zeroCertificate_def zeroPair_def readPEMCert_def
  readPEMKey_def genPrivKey_def ensureDirExists_def mkdirAndCreateFile_def
  restrictKeyPermissions_def to509_def NewPair_def NewCAPair_def LoadCert_def LoadKey_def
  LoadFiles_def WriteCert_def WriteKey_def WriteFiles_def SignWith_def New_def Init_def
  Load_def wrapf_def pemBlockForCert_def NewTemplate_def daysToDuration_def timeAdd_def
  Hour_def KeyUsageDigitalSignature_def KeyUsageCertSign_def KeyUsageCRLSign_def
  caKeyUsages_def ToUpper_def TrimSpace_def toUpperChar_def isSpace_def isASCII_def quote_def
  RootCertFileName_def RootKeyFileName_def

lemmas sample_defs =
  sampleEnv_def emptyState_def rootName_def rootCert_def sampleParseIP_def sampleCreate_def
  sampleParse_def samplePublicKey_def sampleBlockForKey_def sampleOpen_def
  sampleReadAll_def sampleDir_def

lemma pairs_emit [simp]: "pairs (emit e s) = pairs s"
  by (simp add: emit_def)

lemma certs_emit [simp]: "certs (emit e s) = certs s"
  by (simp add: emit_def)

lemma trace_emit [simp]: "trace (emit e s) = trace s @ [e]"
  by (simp add: emit_def)

lemma pairs_closeF [simp]: "pairs (closeF f s) = pairs s"
  by (simp add: closeF_def)

lemma certs_closeF [simp]: "certs (closeF f s) = certs s"
  by (simp add: closeF_def)

lemma trace_closeF [simp]: "trace (closeF f s) = trace s @ [EvClose f]"
  by (simp add: closeF_def)

section \<open>The PEM readers\<close>

lemma scanPEMCert_find:
  "scanPEMCert E bs = (case find (isCertBlock E) bs of
      None \<Rightarrow> Inl ''CERTIFICATE block not found''
    | Some b \<Rightarrow> ParseCertificate E (Bytes b))"
  by (induction bs) (simp_all add: isCertBlock_def Let_def)

lemma scanPEMKey_find:
  "scanPEMKey E bs = (case find (isKeyBlock E) bs of
      None \<Rightarrow> Inl ''PRIVATE KEY block not found''
    | Some b \<Rightarrow> if TrimSpace E (ToUpper E (Type b)) = ''RSA PRIVATE KEY''
                then ParsePKCS1PrivateKey E (Bytes b) else ParseECPrivateKey E (Bytes b))"
  by (induction bs) (simp_all add: isKeyBlock_def Let_def)

lemma readPEMCert_frame:
  "pairs (snd (readPEMCert E r s)) = pairs s \<and> certs (snd (readPEMCert E r s)) = certs s
   \<and> trace (snd (readPEMCert E r s)) = trace s @ [EvReadAll r]"
  by (simp add: readPEMCert_def split: sum.splits)

lemma readPEMKey_frame:
  "pairs (snd (readPEMKey E r s)) = pairs s \<and> certs (snd (readPEMKey E r s)) = certs s
   \<and> trace (snd (readPEMKey E r s)) = trace s @ [EvReadAll r]"
  by (simp add: readPEMKey_def split: sum.splits)

text \<open>
  Claim C6. Once the stream has been read, each reader returns what the parser makes of
  the first block whose label is the expected one (\<open>CERTIFICATE\<close>; \<open>RSA PRIVATE KEY\<close>
  or \<open>EC PRIVATE KEY\<close>, each with its own parser) once \<open>strings.ToUpper\<close> and
  \<open>strings.TrimSpace\<close> have been applied to it; the blocks before it are skipped. When no
  block of the stream has such a label the reader fails with its block-not-found error, and
  when the parser rejects the bytes of the matching block the reader fails with the parser's
  error. A stream that cannot be read fails with the read error.
\<close>

theorem readPEM_first_matching_block:
  "scanPEMCert E bs =
     (case find (isCertBlock E) bs of
        None \<Rightarrow> Inl ''CERTIFICATE block not found''
      | Some b \<Rightarrow> ParseCertificate E (Bytes b))
   \<and> scanPEMKey E bs =
     (case find (isKeyBlock E) bs of
        None \<Rightarrow> Inl ''PRIVATE KEY block not found''
      | Some b \<Rightarrow> if TrimSpace E (ToUpper E (Type b)) = ''RSA PRIVATE KEY''
                  then ParsePKCS1PrivateKey E (Bytes b) else ParseECPrivateKey E (Bytes b))
   \<and> fst (readPEMCert E r s) =
     (case ReadAll E (trace s) r of
        Inl err \<Rightarrow> Inl (''could not read cert PEM: '' @ err)
      | Inr stream \<Rightarrow> scanPEMCert E stream)
   \<and> fst (readPEMKey E r s) =
     (case ReadAll E (trace s) r of
        Inl err \<Rightarrow> Inl (''could not read key PEM: '' @ err)
      | Inr stream \<Rightarrow> scanPEMKey E stream)"
  by (simp add: scanPEMCert_find scanPEMKey_find readPEMCert_def readPEMKey_def
           split: sum.splits)

text \<open>On the sample host, a label with dotless i, a label followed by a no-break space
  and a label in lower case between spaces are all found; the label of a revocation list is
  not.\<close>

lemma readPEM_label_examples:
  "scanPEMCert sampleEnv
     [\<lparr>Type = ''CERT'' @ [CHR 0xC4, CHR 0xB1] @ ''F'' @ [CHR 0xC4, CHR 0xB1] @ ''CATE'',
       Bytes = [48, 130]\<rparr>] = Inr rootCert
   \<and> scanPEMCert sampleEnv
     [\<lparr>Type = ''CERTIFICATE'' @ [CHR 0xC2, CHR 0xA0], Bytes = [48, 130]\<rparr>] = Inr rootCert
   \<and> scanPEMCert sampleEnv [\<lparr>Type = '' certificate '', Bytes = [48, 130]\<rparr>] = Inr rootCert
   \<and> scanPEMCert sampleEnv [\<lparr>Type = ''X509 CRL'', Bytes = [48, 130]\<rparr>]
       = Inl ''CERTIFICATE block not found''"
  by code_simp

section \<open>The certificate descriptor\<close>

lemma classifyHosts_IPAddresses:
  "IPAddresses (classifyHosts E hs c) = IPAddresses c @ List.map_filter (ParseIP E) hs"
  by (induction hs arbitrary: c) (simp_all add: List.map_filter_simps split: option.splits)

lemma classifyHosts_DNSNames:
  "DNSNames (classifyHosts E hs c) = DNSNames c @ filter (\<lambda>h. ParseIP E h = None) hs"
  by (induction hs arbitrary: c) (simp_all split: option.splits)

lemma classifyHosts_NotBefore: "NotBefore (classifyHosts E hs c) = NotBefore c"
  by (induction hs arbitrary: c) (simp_all split: option.splits)

lemma classifyHosts_NotAfter: "NotAfter (classifyHosts E hs c) = NotAfter c"
  by (induction hs arbitrary: c) (simp_all split: option.splits)

lemma classifyHosts_guard:
  "(if length hs > 0 then classifyHosts E hs c else c) = classifyHosts E hs c"
  by (cases hs) simp_all

lemma to509_Inr:
  assumes "to509 E t s = (Inr a, s')"
  shows "a = length (certs s) \<and> length (certs s') = Suc (length (certs s))
    \<and> pairs s' = pairs s \<and> take (length (certs s)) (certs s') = certs s
    \<and> (\<exists>serial. randSerial E (trace s) = Inr serial \<and>
        certs s' ! a = classifyHosts E (HostNames t)
          (zeroCertificate\<lparr>SerialNumber := Some serial,
             Subject := \<lparr>Organization_n = [Organization t], CommonName_n = CommonName t\<rparr>,
             NotBefore := Now E (trace s @ [EvRandSerial]),
             NotAfter := timeAdd (Now E (trace s @ [EvRandSerial]))
                           (daysToDuration (ValidForDays t)),
             BasicConstraintsValid := True\<rparr>))"
  using assms unfolding to509_def Let_def classifyHosts_guard
  by (auto simp: allocCert_def emit_def split: sum.splits)

lemma to509_Inl:
  assumes "to509 E t s = (Inl e, s')"
  shows "pairs s' = pairs s \<and> certs s' = certs s"
  using assms unfolding to509_def Let_def classifyHosts_guard
  by (auto simp: allocCert_def emit_def split: sum.splits)

text \<open>
  Claim C7. In the descriptor built from a template, the IP-address list holds the parsed
  addresses of exactly the host identifiers that \<open>net.ParseIP\<close> accepts, the DNS-name list
  holds the identifiers it rejects, and each list keeps the order of the input list.
\<close>

theorem to509_classifies_hosts:
  assumes "to509 E t s = (Inr a, s')"
  shows "IPAddresses (certs s' ! a) = List.map_filter (ParseIP E) (HostNames t)
     \<and> DNSNames (certs s' ! a) = filter (\<lambda>h. ParseIP E h = None) (HostNames t)"
  using to509_Inr[OF assms]
  by (auto simp: classifyHosts_IPAddresses classifyHosts_DNSNames zeroCertificate_def)

theorem to509_classifies_hosts_witness:
  "fst (to509 sampleEnv hostsTemplate emptyState) = Inr 0
   \<and> IPAddresses (certs (snd (to509 sampleEnv hostsTemplate emptyState)) ! 0)
       = [[10, 0, 0, 1], [0, 0, 0, 0, 0, 0, 0, 0, 0, 0, 0, 0, 0, 0, 0, 1]]
   \<and> DNSNames (certs (snd (to509 sampleEnv hostsTemplate emptyState)) ! 0) = [''db.internal'']"
proof -
  let ?r = "to509 sampleEnv hostsTemplate emptyState"
  have h: "fst ?r = Inr 0"
    by (simp add: model_defs sample_defs hostsTemplate_def Let_def)
  have h': "?r = (Inr 0, snd ?r)"
    using h by (simp add: prod_eq_iff)
  have p: "ParseIP sampleEnv = sampleParseIP"
    by (simp add: sampleEnv_def)
  have v: "HostNames hostsTemplate = [''10.0.0.1'', ''db.internal'', ''::1'']"
    by (simp add: hostsTemplate_def NewTemplate_def)
  from to509_classifies_hosts[OF h'] h show ?thesis
    by (simp add: p v sampleParseIP_def List.map_filter_simps)
qed

lemma daysToDuration_exact:
  assumes "- 106751 \<le> d" "d \<le> 106751"
  shows "sint (daysToDuration d) = d * 86400000000000"
proof -
  have e: "daysToDuration d = word_of_int (d * 86400000000000)"
    by (simp add: daysToDuration_def Hour_def)
  have "sint (word_of_int (d * 86400000000000) :: 64 word)
          = signed_take_bit 63 (d * 86400000000000)"
    by (subst sint_sbintrunc') simp
  also have "\<dots> = d * 86400000000000"
    using assms by (intro signed_take_bit_int_eq_self) simp_all
  finally show ?thesis by (simp only: e)
qed

text \<open>
  Claim C8, as the code has it. The validity is computed in a \<open>time.Duration\<close>, a signed
  64-bit number of nanoseconds. For a template whose validity lies between -106751 and
  106751 days, the descriptor has not-before equal to the time of generation and not-after
  equal to not-before plus validity-days times 24 hours; if moreover validity-days is
  positive, not-after is later than not-before.
\<close>

theorem to509_validity_window:
  assumes "to509 E t s = (Inr a, s')"
    and "- 106751 \<le> ValidForDays t" and "ValidForDays t \<le> 106751"
  shows "NotBefore (certs s' ! a) = Now E (trace s @ [EvRandSerial])
     \<and> NotAfter (certs s' ! a) = NotBefore (certs s' ! a) + ValidForDays t * (24 * 3600000000000)
     \<and> (0 < ValidForDays t \<longrightarrow> NotBefore (certs s' ! a) < NotAfter (certs s' ! a))"
  using to509_Inr[OF assms(1)] daysToDuration_exact[OF assms(2,3)]
  by (auto simp: classifyHosts_NotBefore classifyHosts_NotAfter timeAdd_def)

theorem to509_validity_window_witness:
  "fst (to509 sampleEnv NewTemplate emptyState) = Inr 0
   \<and> - 106751 \<le> ValidForDays NewTemplate \<and> ValidForDays NewTemplate \<le> 106751
   \<and> 0 < ValidForDays NewTemplate
   \<and> NotBefore (certs (snd (to509 sampleEnv NewTemplate emptyState)) ! 0) = 1000
   \<and> NotAfter (certs (snd (to509 sampleEnv NewTemplate emptyState)) ! 0)
       = 1000 + 365 * (24 * 3600000000000)
   \<and> NotBefore (certs (snd (to509 sampleEnv NewTemplate emptyState)) ! 0)
       < NotAfter (certs (snd (to509 sampleEnv NewTemplate emptyState)) ! 0)"
proof -
  let ?r = "to509 sampleEnv NewTemplate emptyState"
  have h: "fst ?r = Inr 0"
    by (simp add: model_defs sample_defs Let_def)
  have h': "?r = (Inr 0, snd ?r)"
    using h by (simp add: prod_eq_iff)
  have lo: "- 106751 \<le> ValidForDays NewTemplate" and hi: "ValidForDays NewTemplate \<le> 106751"
    by (simp_all add: NewTemplate_def)
  have n: "Now sampleEnv tr = 1000" for tr
    by (simp add: sampleEnv_def)
  have v: "ValidForDays NewTemplate = 365"
    by (simp add: NewTemplate_def)
  from to509_validity_window[OF h' lo hi] h show ?thesis
    by (simp add: n v)
qed

text \<open>
  The claim C8 does not hold for every template: with a validity of 106752 days the
  duration wraps around and the certificate expires before it starts to be valid.
\<close>

theorem to509_validity_overflow:
  "fst (to509 sampleEnv longLivedTemplate emptyState) = Inr 0
   \<and> 0 < ValidForDays longLivedTemplate
   \<and> NotBefore (certs (snd (to509 sampleEnv longLivedTemplate emptyState)) ! 0) = 1000
   \<and> NotAfter (certs (snd (to509 sampleEnv longLivedTemplate emptyState)) ! 0)
       = 1000 - 9223371273709551616
   \<and> NotAfter (certs (snd (to509 sampleEnv longLivedTemplate emptyState)) ! 0)
       < NotBefore (certs (snd (to509 sampleEnv longLivedTemplate emptyState)) ! 0)"
  by (simp add: model_defs sample_defs longLivedTemplate_def Let_def)

section \<open>Key-size tokens\<close>

lemma isValidKeySize_iff: "isValidKeySize k \<longleftrightarrow> k \<in> set validKeySizes"
  by (auto simp: isValidKeySize_def validKeySizes_def)

lemma parseKeyBits_invalid:
  "k \<notin> set validKeySizes \<Longrightarrow> parseKeyBits E k = Inl (''invalid key size '' @ quote @ k @ quote)"
  by (simp add: parseKeyBits_def isValidKeySize_iff)

lemma parseKeyBits_valid:
  "map (parseKeyBits E) validKeySizes = map Inr [224, 256, 384, 521, 1024, 2048, 3072, 4096]"
  by (simp add: validKeySizes_def parseKeyBits_def isValidKeySize_def HasPrefix_def
        ToUpper_def toUpperChar_def isASCII_def Atoi_def digitOf_def Let_def)

text \<open>
  For a key-size token outside the enumeration, \<open>parseKeyBits\<close> fails with the
  invalid-key-size error, and the init command prints it and exits with code 1 before
  anything else happens: the trace gains the message only, so no key is generated.
\<close>

lemma init_rejects_invalid_token:
  assumes "keySize fl \<notin> set validKeySizes"
  shows "parseKeyBits E (keySize fl) = Inl (''invalid key size '' @ quote @ keySize fl @ quote)
     \<and> initRun E fl s =
         (Exit 1, s\<lparr>trace := trace s @ [EvPrintf (''Bad key size: invalid key size '' @ quote
                                           @ keySize fl @ quote @ [CHR 0x0A])]\<rparr>)
     \<and> filter isKeyGen (trace (snd (initRun E fl s))) = filter isKeyGen (trace s)"
  using assms by (simp add: initRun_def parseKeyBits_invalid emit_def)

lemma init_rejects_invalid_token_example:
  "keySize badFlags \<notin> set validKeySizes
   \<and> parseKeyBits sampleEnv (keySize badFlags) = Inl (''invalid key size '' @ quote @ ''P512'' @ quote)
   \<and> fst (initRun sampleEnv badFlags emptyState) = Exit 1
   \<and> filter isKeyGen (trace (snd (initRun sampleEnv badFlags emptyState))) = []"
proof -
  have h: "keySize badFlags \<notin> set validKeySizes"
    by (simp add: badFlags_def validKeySizes_def)
  from init_rejects_invalid_token[OF h, of sampleEnv emptyState] h show ?thesis
    by (simp add: badFlags_def emptyState_def)
qed

text \<open>The generate command gives the same result whatever the flag \<open>--key-size\<close> holds.\<close>

lemma genWrite_ignores_key_size:
  "genWrite E (server\<lparr>keySize_s := k\<rparr>) pair s = genWrite E server pair s"
  by (simp add: genWrite_def)

lemma genRun_ignores_key_size:
  "genRun E inFl (server\<lparr>keySize_s := k\<rparr>) selfSigned s = genRun E inFl server selfSigned s"
  by (simp add: genRun_def genWrite_ignores_key_size Let_def
           split: sum.splits prod.splits option.splits failure.splits)


text \<open>
  Claim C3 asks that every token outside the enumeration is refused before any key is
  generated. The init command does so; the generate command does not. Its flag
  \<open>--key-size\<close> is bound to \<open>server.keySize\<close>, but its \<open>Run\<close> function parses
  \<open>in.keySize\<close>, the variable of the init command, which holds the default \<open>P256\<close>. So
  \<open>pgcrtauth generate -H db.internal -o /out --self-signed -K P512\<close>, whose token
  \<open>parseKeyBits\<close> would refuse, runs to the end and generates a key on the curve P-256.
\<close>

theorem generate_accepts_invalid_token:
  "keySize_s badServerFlags = ''P512''
   \<and> ''P512'' \<notin> set validKeySizes
   \<and> parseKeyBits sampleEnv (keySize_s badServerFlags)
       = Inl (''invalid key size '' @ quote @ ''P512'' @ quote)
   \<and> fst (genRun sampleEnv defaultInitFlags badServerFlags True emptyState) = Returned
   \<and> filter isKeyGen (trace (snd (genRun sampleEnv defaultInitFlags badServerFlags True
                                      emptyState)))
       = [EvECGenerateKey (Some P256)]"
  by (simp add: genRun_def genWrite_def NewServerPair_def model_defs sample_defs
        defaultInitFlags_def badServerFlags_def validKeySizes_def parseKeyBits_def
        isValidKeySize_def HasPrefix_def Atoi_def digitOf_def ServerCertFileName_def
        ServerKeyFileName_def KeyUsageKeyEncipherment_def ExtKeyUsageServerAuth_def Let_def)


section \<open>Loading a pair\<close>

lemma map_KeyBits_update_Cert:
  "map KeyBits_p (xs[a := (xs ! a)\<lparr>Cert := c\<rparr>]) = map KeyBits_p xs"
  by (cases "a < length xs") (auto simp: list_eq_iff_nth_eq nth_list_update)

lemma map_KeyBits_update_Key:
  "map KeyBits_p (xs[a := (xs ! a)\<lparr>Key := k\<rparr>]) = map KeyBits_p xs"
  by (cases "a < length xs") (auto simp: list_eq_iff_nth_eq nth_list_update)

lemma map_Key_update_Cert:
  "map Key (xs[a := (xs ! a)\<lparr>Cert := c\<rparr>]) = map Key xs"
  by (cases "a < length xs") (auto simp: list_eq_iff_nth_eq nth_list_update)

lemma map_Cert_update_Key:
  "map Cert (xs[a := (xs ! a)\<lparr>Key := k\<rparr>]) = map Cert xs"
  by (cases "a < length xs") (auto simp: list_eq_iff_nth_eq nth_list_update)

lemma LoadCert_KeyBits:
  "map KeyBits_p (pairs (snd (LoadCert E p r s))) = map KeyBits_p (pairs s)"
proof (cases "readPEMCert E r s")
  case (Pair x s1)
  have "pairs s1 = pairs s" using readPEMCert_frame[of E r s] Pair by simp
  then show ?thesis using Pair
    by (simp add: LoadCert_def allocCert_def updPair_def map_KeyBits_update_Cert
             split: sum.splits option.splits)
qed

lemma LoadCert_Key:
  "map Key (pairs (snd (LoadCert E p r s))) = map Key (pairs s)"
proof (cases "readPEMCert E r s")
  case (Pair x s1)
  have "pairs s1 = pairs s" using readPEMCert_frame[of E r s] Pair by simp
  then show ?thesis using Pair
    by (simp add: LoadCert_def allocCert_def updPair_def map_Key_update_Cert
             split: sum.splits option.splits)
qed

lemma LoadKey_KeyBits:
  "map KeyBits_p (pairs (snd (LoadKey E p r s))) = map KeyBits_p (pairs s)"
proof (cases "readPEMKey E r s")
  case (Pair x s1)
  have "pairs s1 = pairs s" using readPEMKey_frame[of E r s] Pair by simp
  then show ?thesis using Pair
    by (simp add: LoadKey_def updPair_def map_KeyBits_update_Key
             split: sum.splits option.splits)
qed

lemma LoadKey_Cert:
  "map Cert (pairs (snd (LoadKey E p r s))) = map Cert (pairs s)"
proof (cases "readPEMKey E r s")
  case (Pair x s1)
  have "pairs s1 = pairs s" using readPEMKey_frame[of E r s] Pair by simp
  then show ?thesis using Pair
    by (simp add: LoadKey_def updPair_def map_Cert_update_Key
             split: sum.splits option.splits)
qed

lemma LoadFiles_KeyBits:
  "map KeyBits_p (pairs (snd (LoadFiles E p cp kp s))) = map KeyBits_p (pairs s)"
proof (cases "Open E (trace s) cp")
  case (Some e)
  then show ?thesis by (simp add: LoadFiles_def)
next
  case None
  obtain r2 s2 where l1: "LoadCert E p cp (emit (EvOpen cp) s) = (r2, s2)"
    by (cases "LoadCert E p cp (emit (EvOpen cp) s)")
  have k2: "map KeyBits_p (pairs s2) = map KeyBits_p (pairs s)"
    using LoadCert_KeyBits[of E p cp "emit (EvOpen cp) s"] l1 by simp
  obtain r4 s4 where l2: "LoadKey E p kp (emit (EvOpen kp) s2) = (r4, s4)"
    by (cases "LoadKey E p kp (emit (EvOpen kp) s2)")
  have k4: "map KeyBits_p (pairs s4) = map KeyBits_p (pairs s2)"
    using LoadKey_KeyBits[of E p kp "emit (EvOpen kp) s2"] l2 by simp
  show ?thesis using None l1 l2 k2 k4
    by (simp add: LoadFiles_def split: option.splits)
qed

text \<open>
  Claim C10. \<open>LoadCert\<close>, \<open>LoadKey\<close> and \<open>LoadFiles\<close> leave the \<open>KeyBits\<close> field of every
  pair as it was (\<open>LoadCert\<close> also leaves every \<open>Key\<close>, and \<open>LoadKey\<close> every \<open>Cert\<close>).
  Hence after \<open>Load\<close> on the authority that \<open>New\<close> creates, whatever the files hold and
  whether or not the call succeeds, the pair of the authority has \<open>KeyBits\<close> zero.
\<close>

theorem Load_keeps_KeyBits:
  "map KeyBits_p (pairs (snd (LoadCert E p r s))) = map KeyBits_p (pairs s)
   \<and> map Key (pairs (snd (LoadCert E p r s))) = map Key (pairs s)
   \<and> map KeyBits_p (pairs (snd (LoadKey E p r s))) = map KeyBits_p (pairs s)
   \<and> map Cert (pairs (snd (LoadKey E p r s))) = map Cert (pairs s)
   \<and> map KeyBits_p (pairs (snd (LoadFiles E p cp kp s))) = map KeyBits_p (pairs s)
   \<and> CAPair (fst (New s)) = Some (length (pairs s))
   \<and> map KeyBits_p (pairs (snd (Load E (fst (New s)) dir (snd (New s)))))
       = map KeyBits_p (pairs s) @ [0]"
  by (simp add: LoadCert_KeyBits LoadCert_Key LoadKey_KeyBits LoadKey_Cert LoadFiles_KeyBits
        Load_def New_def allocPair_def zeroPair_def)

section \<open>Creating a pair\<close>

lemma or_and_absorb_int: "(x OR m) AND m = (m :: int)"
  by (rule bit_eqI) (auto simp: bit_and_iff bit_or_iff)

lemma and_or_absorb_int: "m AND (x OR m) = (m :: int)"
  by (rule bit_eqI) (auto simp: bit_and_iff bit_or_iff)

lemma genPrivKey_frame:
  "pairs (snd (genPrivKey E b s)) = pairs s \<and> certs (snd (genPrivKey E b s)) = certs s"
  by (simp add: genPrivKey_def Let_def split: sum.splits option.splits)

lemma NewPair_Inr:
  assumes "NewPair E t s = (Inr p, s1)"
  shows "p = length (pairs s) \<and> length (certs s1) = Suc (length (certs s))
     \<and> take (length (certs s)) (certs s1) = certs s
     \<and> (\<exists>k. pairs s1 = pairs s @ [\<lparr>Cert = Some (length (certs s)), Key = Some k,
                                      KeyBits_p = KeyBits t\<rparr>])"
proof -
  obtain r s0 where t: "to509 E t s = (r, s0)" by (cases "to509 E t s")
  obtain c s2 where a: "(case r of Inl err \<Rightarrow> allocCert zeroCertificate s0 | Inr c \<Rightarrow> (c, s0)) = (c, s2)"
    by (cases "(case r of Inl err \<Rightarrow> allocCert zeroCertificate s0 | Inr c \<Rightarrow> (c, s0))")
  have c: "c = length (certs s) \<and> length (certs s2) = Suc (length (certs s))
     \<and> take (length (certs s)) (certs s2) = certs s \<and> pairs s2 = pairs s"
  proof (cases r)
    case (Inl e)
    with to509_Inl[of E t s e s0] t a show ?thesis by (auto simp: allocCert_def)
  next
    case (Inr c')
    with to509_Inr[of E t s c' s0] t a show ?thesis by auto
  qed
  obtain k s3 where g: "genPrivKey E (KeyBits t) s2 = (k, s3)"
    by (cases "genPrivKey E (KeyBits t) s2")
  have f: "pairs s3 = pairs s2 \<and> certs s3 = certs s2"
    using genPrivKey_frame[of E "KeyBits t" s2] g by simp
  show ?thesis using assms t a g c f
    by (auto simp: NewPair_def allocPair_def split: sum.splits failure.splits)
qed

lemma NewPair_Inl:
  assumes "NewPair E t s = (Inl e, s1)"
  shows "pairs s1 = pairs s \<and> take (length (certs s)) (certs s1) = certs s"
proof -
  obtain r s0 where t: "to509 E t s = (r, s0)" by (cases "to509 E t s")
  obtain c s2 where a: "(case r of Inl err \<Rightarrow> allocCert zeroCertificate s0 | Inr c \<Rightarrow> (c, s0)) = (c, s2)"
    by (cases "(case r of Inl err \<Rightarrow> allocCert zeroCertificate s0 | Inr c \<Rightarrow> (c, s0))")
  have c: "take (length (certs s)) (certs s2) = certs s \<and> pairs s2 = pairs s"
  proof (cases r)
    case (Inl e)
    with to509_Inl[of E t s e s0] t a show ?thesis by (auto simp: allocCert_def)
  next
    case (Inr c')
    with to509_Inr[of E t s c' s0] t a show ?thesis by auto
  qed
  obtain k s3 where g: "genPrivKey E (KeyBits t) s2 = (k, s3)"
    by (cases "genPrivKey E (KeyBits t) s2")
  have f: "pairs s3 = pairs s2 \<and> certs s3 = certs s2"
    using genPrivKey_frame[of E "KeyBits t" s2] g by simp
  show ?thesis using assms t a g c f
    by (auto simp: NewPair_def allocPair_def split: sum.splits failure.splits)
qed

lemma NewCAPair_Inr:
  assumes "NewCAPair E t s = (Inr p, s1)"
  shows "p = length (pairs s) \<and> length (certs s1) = Suc (length (certs s))
     \<and> take (length (certs s)) (certs s1) = certs s
     \<and> (\<exists>k. pairs s1 = pairs s @ [\<lparr>Cert = Some (length (certs s)), Key = Some k,
                                      KeyBits_p = KeyBits t\<rparr>])
     \<and> IsCA (certs s1 ! length (certs s))
     \<and> KeyUsage (certs s1 ! length (certs s)) AND caKeyUsages = caKeyUsages"
proof -
  obtain r s0 where n: "NewPair E t s = (r, s0)" by (cases "NewPair E t s")
  with assms obtain p' where r: "r = Inr p'"
    by (cases r) (auto simp: NewCAPair_def)
  from NewPair_Inr[of E t s p' s0] n r
  have "p' = length (pairs s) \<and> length (certs s0) = Suc (length (certs s))
     \<and> take (length (certs s)) (certs s0) = certs s
     \<and> (\<exists>k. pairs s0 = pairs s @ [\<lparr>Cert = Some (length (certs s)), Key = Some k,
                                      KeyBits_p = KeyBits t\<rparr>])" by simp
  then show ?thesis using assms n r
    by (auto simp: NewCAPair_def pairAt_def updCert_def caKeyUsages_def
        KeyUsageDigitalSignature_def KeyUsageCertSign_def KeyUsageCRLSign_def
        or_and_absorb_int and_or_absorb_int)
qed

lemma NewCAPair_Inl:
  assumes "NewCAPair E t s = (Inl e, s1)"
  shows "pairs s1 = pairs s \<and> take (length (certs s)) (certs s1) = certs s"
proof -
  obtain r s0 where n: "NewPair E t s = (r, s0)" by (cases "NewPair E t s")
  show ?thesis
  proof (cases r)
    case (Inl f)
    with NewPair_Inl[of E t s f s0] n assms show ?thesis by (simp add: NewCAPair_def)
  next
    case (Inr p')
    from NewPair_Inr[of E t s p' s0] n Inr
    have "p' = length (pairs s) \<and> (\<exists>k. pairs s0 = pairs s @ [\<lparr>Cert = Some (length (certs s)), Key = Some k,
                                      KeyBits_p = KeyBits t\<rparr>])" by simp
    then show ?thesis using assms n Inr
      by (auto simp: NewCAPair_def pairAt_def)
  qed
qed

text \<open>Whatever the template and the state, a failure of the serial number does not stop
  \<open>NewPair\<close>, and \<open>NewPair\<close> fails only when key generation fails.\<close>

lemma NewPair_ignores_to509_failure:
  assumes "randSerial E (trace s) = Inl e"
    and "fst (genPrivKey E (KeyBits t) (snd (allocCert zeroCertificate (emit EvRandSerial s)))) = Inr k"
  shows "fst (NewPair E t s) = Inr (length (pairs s))
     \<and> pairs (snd (NewPair E t s))
         = pairs s @ [\<lparr>Cert = Some (length (certs s)), Key = Some k, KeyBits_p = KeyBits t\<rparr>]
     \<and> certs (snd (NewPair E t s)) = certs s @ [zeroCertificate]"
proof -
  have t: "to509 E t s = (Inl (''To509() failed: '' @ e), emit EvRandSerial s)"
    using assms(1) by (simp add: to509_def)
  let ?s2 = "snd (allocCert zeroCertificate (emit EvRandSerial s))"
  obtain r s3 where g: "genPrivKey E (KeyBits t) ?s2 = (r, s3)"
    by (cases "genPrivKey E (KeyBits t) ?s2")
  with assms(2) have r: "r = Inr k" by simp
  have f: "pairs s3 = pairs s \<and> certs s3 = certs s @ [zeroCertificate]"
    using genPrivKey_frame[of E "KeyBits t" ?s2] g by (simp add: allocCert_def)
  show ?thesis using t g r f
    by (simp add: NewPair_def allocCert_def allocPair_def)
qed

lemma NewPair_fails_only_on_keygen:
  assumes "NewPair E t s = (Inl f, s')"
  shows "\<exists>s2 g. genPrivKey E (KeyBits t) s2 = (Inl g, s')
           \<and> f = wrapf ''failed to generate private key for pair: '' g"
proof -
  obtain r s0 where t: "to509 E t s = (r, s0)" by (cases "to509 E t s")
  obtain c s2 where a: "(case r of Inl err \<Rightarrow> allocCert zeroCertificate s0 | Inr c \<Rightarrow> (c, s0)) = (c, s2)"
    by (cases "(case r of Inl err \<Rightarrow> allocCert zeroCertificate s0 | Inr c \<Rightarrow> (c, s0))")
  obtain k s3 where g: "genPrivKey E (KeyBits t) s2 = (k, s3)"
    by (cases "genPrivKey E (KeyBits t) s2")
  from assms t a g have "s3 = s' \<and> (\<exists>g. k = Inl g \<and> f = wrapf ''failed to generate private key for pair: '' g)"
    by (auto simp: NewPair_def allocPair_def wrapf_def split: sum.splits failure.splits)
  with g show ?thesis by blast
qed

text \<open>
  Claim C1 asks that a failure of \<open>to509\<close> reaches the caller of \<open>NewPair\<close> and that
  no pair is returned. The code does otherwise: on a host whose entropy source fails when
  the serial number is drawn, \<open>to509\<close> fails and \<open>NewPair\<close> still returns a pair, whose
  certificate is the zero value \<open>x509.Certificate{}\<close>: no serial number, no subject, no
  validity. The error of key generation, the other step, does come back to the caller.
\<close>

theorem NewPair_swallows_template_error:
  "fst (to509 noEntropyEnv rootTemplate emptyState) = Inl ''To509() failed: EOF''
   \<and> fst (NewPair noEntropyEnv rootTemplate emptyState) = Inr 0
   \<and> pairs (snd (NewPair noEntropyEnv rootTemplate emptyState))
       = [\<lparr>Cert = Some 0, Key = Some (ECDSAPrivateKey [1]), KeyBits_p = 256\<rparr>]
   \<and> certs (snd (NewPair noEntropyEnv rootTemplate emptyState)) = [zeroCertificate]"
  by (simp add: model_defs sample_defs noEntropyEnv_def rootTemplate_def Let_def)

section \<open>Loading from a directory with no key file\<close>

text \<open>
  Claim C2, as the code has it. When the certificate file opens, is read and holds a
  certificate block that parses, and the key file cannot be opened, \<open>Load\<close> fails with the
  error of opening the key file and leaves the \<open>Key\<close> and \<open>KeyBits\<close> fields of the pair
  of the authority as they were; its \<open>Cert\<close> field has been set to the certificate parsed
  from the certificate file, and no other pair has changed.
\<close>

theorem Load_missing_key:
  assumes "CAPair ca = Some a" and "a < length (pairs s)"
    and "cp = filepathJoin E dir (CertFileName ca)"
    and "kp = filepathJoin E dir (KeyFileName ca)"
    and "Open E (trace s) cp = None"
    and "ReadAll E (trace s @ [EvOpen cp]) cp = Inr stream"
    and "scanPEMCert E stream = Inr cert"
    and "Open E (trace s @ [EvOpen cp, EvReadAll cp]) kp = Some err"
  shows "fst (Load E ca dir s)
           = Some (Error (''failed opening key file '' @ kp @ '': '' @ err))
     \<and> pairs (snd (Load E ca dir s))
           = (pairs s)[a := (pairs s ! a)\<lparr>Cert := Some (length (certs s))\<rparr>]
     \<and> certs (snd (Load E ca dir s)) = certs s @ [cert]
     \<and> Cert (pairs (snd (Load E ca dir s)) ! a) = Some (length (certs s))
     \<and> Key (pairs (snd (Load E ca dir s)) ! a) = Key (pairs s ! a)
     \<and> KeyBits_p (pairs (snd (Load E ca dir s)) ! a) = KeyBits_p (pairs s ! a)"
proof -
  have lc: "LoadCert E (Some a) cp (emit (EvOpen cp) s)
      = (None, updPair a (\<lambda>x. x\<lparr>Cert := Some (length (certs s))\<rparr>)
                 ((emit (EvReadAll cp) (emit (EvOpen cp) s))\<lparr>certs := certs s @ [cert]\<rparr>))"
    using assms(2,6,7)
    by (simp add: LoadCert_def readPEMCert_def allocCert_def)
  show ?thesis
    using assms(1,2,5,8) lc unfolding Load_def Let_def assms(3)[symmetric] assms(4)[symmetric]
    by (simp add: LoadFiles_def updPair_def)
qed

theorem Load_missing_key_witness:
  "CAPair freshCA = Some 0 \<and> 0 < length (pairs freshState)
   \<and> Open sampleEnv (trace freshState) ''/ca/root.crt'' = None
   \<and> Open sampleEnv (trace freshState @ [EvOpen ''/ca/root.crt'', EvReadAll ''/ca/root.crt''])
        ''/ca/root.key'' = Some ''open /ca/root.key: no such file or directory''
   \<and> fst (Load sampleEnv freshCA ''/ca'' freshState)
       = Some (Error (''failed opening key file /ca/root.key: ''
                      @ ''open /ca/root.key: no such file or directory''))
   \<and> Key (pairs (snd (Load sampleEnv freshCA ''/ca'' freshState)) ! 0) = None
   \<and> certs (snd (Load sampleEnv freshCA ''/ca'' freshState)) = [rootCert]"
proof -
  have 1: "CAPair freshCA = Some 0" and 2: "0 < length (pairs freshState)"
    by (simp_all add: freshCA_def freshState_def New_def allocPair_def emptyState_def)
  have 3: "''/ca/root.crt'' = filepathJoin sampleEnv ''/ca'' (CertFileName freshCA)"
    and 4: "''/ca/root.key'' = filepathJoin sampleEnv ''/ca'' (KeyFileName freshCA)"
    by (simp_all add: freshCA_def New_def allocPair_def sampleEnv_def RootCertFileName_def
          RootKeyFileName_def)
  have 5: "Open sampleEnv (trace freshState) ''/ca/root.crt'' = None"
    by (simp add: sampleEnv_def sampleOpen_def)
  have 6: "ReadAll sampleEnv (trace freshState @ [EvOpen ''/ca/root.crt'']) ''/ca/root.crt''
             = Inr [\<lparr>Type = ''X509 CRL'', Bytes = [7]\<rparr>,
                    \<lparr>Type = ''CERTIFICATE'', Bytes = [48, 130]\<rparr>]"
    by (simp add: sampleEnv_def sampleReadAll_def)
  have 7: "scanPEMCert sampleEnv [\<lparr>Type = ''X509 CRL'', Bytes = [7]\<rparr>,
                    \<lparr>Type = ''CERTIFICATE'', Bytes = [48, 130]\<rparr>] = Inr rootCert"
    by (simp add: sampleEnv_def sampleParse_def ToUpper_def TrimSpace_def toUpperChar_def isASCII_def
          isSpace_def Let_def)
  have 8: "Open sampleEnv (trace freshState @ [EvOpen ''/ca/root.crt'', EvReadAll ''/ca/root.crt''])
        ''/ca/root.key'' = Some ''open /ca/root.key: no such file or directory''"
    by (simp add: sampleEnv_def sampleOpen_def)
  have k: "Key (pairs freshState ! 0) = None" and c: "certs freshState = []"
    by (simp_all add: freshState_def New_def allocPair_def emptyState_def zeroPair_def)
  from Load_missing_key[OF 1 2 3 4 5 6 7 8] 1 2 5 8 k c show ?thesis
    by simp
qed

text \<open>
  The claim C2 itself does not hold: in the sample directory, which has \<open>root.crt\<close> and
  lacks \<open>root.key\<close>, the failed call has replaced the \<open>Cert\<close> field of the pair.
\<close>

theorem Load_missing_key_populates_cert:
  "Open sampleEnv (trace freshState) ''/ca/root.crt'' = None
   \<and> Open sampleEnv (trace freshState @ [EvOpen ''/ca/root.crt'', EvReadAll ''/ca/root.crt''])
        ''/ca/root.key'' = Some ''open /ca/root.key: no such file or directory''
   \<and> CAPair freshCA = Some 0
   \<and> fst (Load sampleEnv freshCA ''/ca'' freshState)
       = Some (Error (''failed opening key file /ca/root.key: ''
                      @ ''open /ca/root.key: no such file or directory''))
   \<and> Cert (pairs freshState ! 0) = None
   \<and> Cert (pairs (snd (Load sampleEnv freshCA ''/ca'' freshState)) ! 0) = Some 0
   \<and> Cert (pairs (snd (Load sampleEnv freshCA ''/ca'' freshState)) ! 0)
       \<noteq> Cert (pairs freshState ! 0)"
  by (simp add: model_defs sample_defs freshCA_def freshState_def Let_def)

section \<open>Writing a pair\<close>

lemma ensureDirExists_frame:
  "pairs (snd (ensureDirExists E d m s)) = pairs s \<and> certs (snd (ensureDirExists E d m s)) = certs s"
  by (simp add: ensureDirExists_def Let_def split: option.splits)

lemma mkdirAndCreateFile_frame:
  "pairs (snd (mkdirAndCreateFile E n dp fp s)) = pairs s
   \<and> certs (snd (mkdirAndCreateFile E n dp fp s)) = certs s"
proof (cases "ensureDirExists E (filepathDir E n) dp s")
  case (Pair r s1)
  with ensureDirExists_frame[of E "filepathDir E n" dp s] show ?thesis
    by (simp add: mkdirAndCreateFile_def split: option.splits)
qed

lemma WriteCert_frame:
  "pairs (snd (WriteCert E p w s)) = pairs s \<and> certs (snd (WriteCert E p w s)) = certs s"
  by (simp add: WriteCert_def Let_def split: option.splits)

lemma WriteKey_frame:
  "pairs (snd (WriteKey E p w s)) = pairs s \<and> certs (snd (WriteKey E p w s)) = certs s"
  by (simp add: WriteKey_def Let_def split: option.splits sum.splits)

lemma restrictKeyPermissions_frame:
  "pairs (snd (restrictKeyPermissions E k s)) = pairs s
   \<and> certs (snd (restrictKeyPermissions E k s)) = certs s"
  by (simp add: restrictKeyPermissions_def Let_def split: option.splits)

lemma WriteFiles_frame:
  "pairs (snd (WriteFiles E p cp kp s)) = pairs s \<and> certs (snd (WriteFiles E p cp kp s)) = certs s"
proof -
  obtain r1 s1 where a1: "mkdirAndCreateFile E cp 448 420 s = (r1, s1)"
    by (cases "mkdirAndCreateFile E cp 448 420 s")
  have f1: "pairs s1 = pairs s \<and> certs s1 = certs s"
    using mkdirAndCreateFile_frame[of E cp 448 420 s] a1 by simp
  show ?thesis
  proof (cases r1)
    case (Inl e)
    with a1 f1 show ?thesis by (simp add: WriteFiles_def)
  next
    case (Inr certFile)
    obtain r2 s2 where a2: "WriteCert E p certFile s1 = (r2, s2)"
      by (cases "WriteCert E p certFile s1")
    have f2: "pairs s2 = pairs s \<and> certs s2 = certs s"
      using WriteCert_frame[of E p certFile s1] a2 f1 by simp
    obtain r3 s3 where a3: "mkdirAndCreateFile E kp 448 384 s2 = (r3, s3)"
      by (cases "mkdirAndCreateFile E kp 448 384 s2")
    have f3: "pairs s3 = pairs s \<and> certs s3 = certs s"
      using mkdirAndCreateFile_frame[of E kp 448 384 s2] a3 f2 by simp
    show ?thesis
    proof (cases r3)
      case (Inl e)
      with a1 a2 a3 f2 f3 Inr show ?thesis
        by (simp add: WriteFiles_def split: option.splits)
    next
      case r3: (Inr keyFile)
      obtain r4 s4 where a4: "WriteKey E p keyFile s3 = (r4, s4)"
        by (cases "WriteKey E p keyFile s3")
      have f4: "pairs s4 = pairs s \<and> certs s4 = certs s"
        using WriteKey_frame[of E p keyFile s3] a4 f3 by simp
      obtain r6 s6 where a6: "restrictKeyPermissions E kp (closeF keyFile s4) = (r6, s6)"
        by (cases "restrictKeyPermissions E kp (closeF keyFile s4)")
      have f6: "pairs s6 = pairs s \<and> certs s6 = certs s"
        using restrictKeyPermissions_frame[of E kp "closeF keyFile s4"] a6 f4 by simp
      show ?thesis using a1 a2 a3 a4 a6 f2 f3 f4 f6 Inr r3
        by (simp add: WriteFiles_def split: option.splits)
    qed
  qed
qed










text \<open>Under Windows the permission pass runs its two commands on the key file.\<close>

lemma WriteFiles_windows_example:
  "filter isExec
     (trace (snd (WriteFiles windowsEnv (Some 0) ''/ca/root.crt'' ''/ca/root.key'' rootState)))
   = [EvExec ''icacls'' [''/ca/root.key'', ''/reset''],
      EvExec ''icacls'' [''/ca/root.key'', ''/inheritance:r'', ''/grant:r'', ''CREATOR OWNER:F'']]"
  by (simp add: model_defs sample_defs rootState_def windowsEnv_def Let_def)

section \<open>Signing\<close>

lemma SignWith_frame:
  assumes "SignWith E (Some a) parent s = (r, s')"
    and "a < length (pairs s)" and "Cert (pairs s ! a) = Some c"
    and "n \<le> a" and "m \<le> c"
  shows "take n (pairs s') = take n (pairs s) \<and> take m (certs s') = take m (certs s)"
  using assms
  by (auto simp: SignWith_def pairAt_def certAt_def updCert_def updPair_def allocCert_def
        Let_def
      split: option.splits if_splits sum.splits prod.splits)

lemma SignWith_self_success:
  assumes "SignWith E p p s = (None, s')"
  shows "\<exists>a c k der cert. p = Some a \<and> a < length (pairs s) \<and> Cert (pairs s ! a) = Some c
     \<and> c < length (certs s) \<and> Key (pairs s ! a) = Some k
     \<and> CreateCertificate E (trace s) (selfSignDescriptor (certs s ! c)) (selfSignDescriptor (certs s ! c))
          (publicKey E (Some k)) k = Inr der
     \<and> ParseCertificate E der = Inr cert
     \<and> trace s' = trace s @ [EvCreateCertificate (selfSignDescriptor (certs s ! c)) (selfSignDescriptor (certs s ! c))
          (publicKey E (Some k)) k]
     \<and> pairs s' = (pairs s)[a := (pairs s ! a)\<lparr>Cert := Some (length (certs s))\<rparr>]
     \<and> certs s' = (certs s)[c := selfSignDescriptor (certs s ! c)] @ [cert]"
  using assms
  by (auto simp: SignWith_def pairAt_def certAt_def updCert_def updPair_def allocCert_def
        Let_def selfSignDescriptor_def emit_def
      split: option.splits if_splits sum.splits prod.splits)

lemma selfSignDescriptor_props:
  "IsCA (selfSignDescriptor x) \<and> KeyUsage (selfSignDescriptor x) AND caKeyUsages = caKeyUsages
   \<and> Issuer (selfSignDescriptor x) = Subject (selfSignDescriptor x)"
  by (simp add: selfSignDescriptor_def or_and_absorb_int)

text \<open>Every descriptor built from a template has the basic-constraints flag.\<close>

lemma classifyHosts_BasicConstraintsValid:
  "BasicConstraintsValid (classifyHosts E hs c) = BasicConstraintsValid c"
  by (induction hs arbitrary: c) (simp_all split: option.splits)

lemma to509_BasicConstraintsValid:
  assumes "to509 E t s = (Inr a, s')"
  shows "BasicConstraintsValid (certs s' ! a)"
  using to509_Inr[OF assms]
  by (auto simp: classifyHosts_BasicConstraintsValid)

text \<open>The library of the sample host with the computed encoding does, for every descriptor,
  what is said of \<open>crypto/x509\<close>.\<close>

lemma charOfByte_byteOfChar: "charOfByte (byteOfChar c) = c"
  by (simp add: charOfByte_def byteOfChar_def unat_of_nat take_bit_eq_mod)

lemma decStrings_chars:
  "decStrings (concat (map (\<lambda>c. [1, byteOfChar c]) s) @ t # bs) cur acc
     = decStrings (t # bs) (rev s @ cur) acc"
  by (induction s arbitrary: cur) (simp_all add: charOfByte_byteOfChar)

lemma decStrings_body:
  "decStrings (concat (map (\<lambda>s. concat (map (\<lambda>c. [1, byteOfChar c]) s) @ [2]) xs) @ 0 # rest) [] acc
     = Some (rev acc @ xs, rest)"
proof (induction xs arbitrary: acc)
  case Nil
  then show ?case by (cases rest) simp_all
next
  case (Cons x xs)
  have "decStrings ((concat (map (\<lambda>c. [1, byteOfChar c]) x) @ 2 #
          (concat (map (\<lambda>s. concat (map (\<lambda>c. [1, byteOfChar c]) s) @ [2]) xs) @ 0 # rest))) [] acc
        = decStrings (2 # (concat (map (\<lambda>s. concat (map (\<lambda>c. [1, byteOfChar c]) s) @ [2]) xs) @ 0 # rest))
            (rev x @ []) acc"
    by (rule decStrings_chars)
  also have "\<dots> = decStrings (concat (map (\<lambda>s. concat (map (\<lambda>c. [1, byteOfChar c]) s) @ [2]) xs) @ 0 # rest)
            [] (x # acc)"
    by (cases "concat (map (\<lambda>s. concat (map (\<lambda>c. [1, byteOfChar c]) s) @ [2]) xs) @ 0 # rest") simp_all
  also have "\<dots> = Some (rev (x # acc) @ xs, rest)"
    by (rule Cons.IH)
  finally show ?case by simp
qed

lemma decName_encName: "decName (encName n @ rest) = Some (n, rest)"
  using decStrings_body[of "CommonName_n n # Organization_n n" rest "[]"]
  by (simp add: decName_def encName_def encStrings_def)

lemma bit_256_iff: "bit (256 :: int) n \<longleftrightarrow> n = 8"
proof -
  have "(256 :: int) = 2 ^ 8" by simp
  then show ?thesis by (simp only: bit_exp_iff) auto
qed

lemma keyUsage_bytes:
  "uint (word_of_int ku :: 8 word) OR push_bit 8 (uint ((word_of_int (drop_bit 8 ku) :: 8 word) AND 1))
     = take_bit 9 ku"
proof (rule bit_eqI)
  fix n :: nat
  have "n < 9 \<longleftrightarrow> n < 8 \<or> n = 8" by auto
  then show "bit (uint (word_of_int ku :: 8 word)
                  OR push_bit 8 (uint ((word_of_int (drop_bit 8 ku) :: 8 word) AND 1))) n
           = bit (take_bit 9 ku) n"
    by (auto simp: bit_simps uint_word_of_int_eq uint_and bit_1_iff bit_256_iff)
qed

lemma modelLibrary_contract: "x509_contract x509Env tr tmpl par pub key"
proof (cases "SerialNumber tmpl")
  case None
  then show ?thesis
    by (simp add: x509_contract_def x509Env_def modelCreate_def)
next
  case (Some n)
  have d1: "decName (encName (Subject tmpl) @ encName (Subject par))
              = Some (Subject tmpl, encName (Subject par))"
    by (rule decName_encName)
  have d2: "decName (encName (Subject par)) = Some (Subject par, [])"
    using decName_encName[of "Subject par" "[]"] by simp
  show ?thesis using Some
    by (simp add: x509_contract_def x509Env_def modelCreate_def modelParse_def d1 d2
          keyUsage_bytes)
qed

lemma take_bit_9_caKeyUsages:
  assumes "y AND caKeyUsages = caKeyUsages"
  shows "take_bit 9 y AND caKeyUsages = caKeyUsages"
proof -
  have c: "take_bit 9 caKeyUsages = caKeyUsages"
    by (simp add: caKeyUsages_def KeyUsageDigitalSignature_def KeyUsageCertSign_def
          KeyUsageCRLSign_def)
  have "take_bit 9 y AND caKeyUsages = take_bit 9 y AND take_bit 9 caKeyUsages"
    by (simp only: c)
  also have "\<dots> = take_bit 9 (y AND caKeyUsages)"
    by (simp only: take_bit_and)
  finally show ?thesis using assms c by simp
qed


text \<open>
  Claim C4, as the code has it. \<open>SignWith\<close> sets the is-CA flag, the three CA key usages
  (digital signature, certificate signing, CRL signing) and the issuer in the descriptor,
  and leaves the flag \<open>BasicConstraintsValid\<close> as it finds it; whether the is-CA flag
  reaches the certificate depends on that flag. When a pair whose certificate has
  \<open>BasicConstraintsValid\<close> set, as every descriptor built from a template has, signs
  itself and \<open>SignWith\<close> succeeds, the descriptor handed to \<open>x509.CreateCertificate\<close>, as
  descriptor and as signer's certificate, is the certificate of the pair with issuer, is-CA
  flag and usages set, and the certificate the pair holds afterwards has is-CA set, has the
  three CA key usages and has issuer equal to subject, the library doing at this call what
  is said of \<open>crypto/x509\<close>.
\<close>

theorem self_sign_is_CA:
  assumes "SignWith E p p s = (None, s')"
    and "pairAt s p = Some pr" and "Key pr = Some k"
    and "certOf s p = Some c0" and "BasicConstraintsValid c0"
    and "x509_contract E (trace s) (selfSignDescriptor c0) (selfSignDescriptor c0)
           (publicKey E (Key pr)) k"
  shows "last (trace s') = EvCreateCertificate (selfSignDescriptor c0) (selfSignDescriptor c0)
                              (publicKey E (Key pr)) k
     \<and> (case certOf s' p of
           None \<Rightarrow> False
         | Some c \<Rightarrow> IsCA c \<and> KeyUsage c AND caKeyUsages = caKeyUsages \<and> Issuer c = Subject c)"
proof -
  from SignWith_self_success[OF assms(1)] obtain a c k' der cert where
    p: "p = Some a" and a: "a < length (pairs s)" and c: "Cert (pairs s ! a) = Some c"
    and cl: "c < length (certs s)" and k: "Key (pairs s ! a) = Some k'"
    and cr: "CreateCertificate E (trace s) (selfSignDescriptor (certs s ! c))
          (selfSignDescriptor (certs s ! c)) (publicKey E (Some k')) k' = Inr der"
    and pa: "ParseCertificate E der = Inr cert"
    and tr: "trace s' = trace s @ [EvCreateCertificate (selfSignDescriptor (certs s ! c))
          (selfSignDescriptor (certs s ! c)) (publicKey E (Some k')) k']"
    and ps: "pairs s' = (pairs s)[a := (pairs s ! a)\<lparr>Cert := Some (length (certs s))\<rparr>]"
    and cs: "certs s' = (certs s)[c := selfSignDescriptor (certs s ! c)] @ [cert]"
    by blast
  have pr: "pr = pairs s ! a"
    using assms(2) p a by (simp add: pairAt_def)
  have kk: "k' = k"
    using assms(3) k pr by simp
  have c0: "certs s ! c = c0"
    using assms(4) p a c cl by (simp add: certOf_def pairAt_def certAt_def)
  let ?T = "selfSignDescriptor c0"
  have co: "certOf s' p = Some cert"
    using p a ps cs by (simp add: certOf_def pairAt_def certAt_def nth_append)
  have bc: "BasicConstraintsValid ?T"
    using assms(5) by (simp add: selfSignDescriptor_def)
  from assms(6) cr pa have "IsCA cert = (BasicConstraintsValid ?T \<and> IsCA ?T)
      \<and> KeyUsage cert = take_bit 9 (KeyUsage ?T) \<and> Issuer cert = Subject cert"
    by (simp add: x509_contract_def c0 kk pr k)
  then have "IsCA cert \<and> KeyUsage cert AND caKeyUsages = caKeyUsages \<and> Issuer cert = Subject cert"
    using selfSignDescriptor_props[of c0] bc take_bit_9_caKeyUsages[of "KeyUsage ?T"] by simp
  then show ?thesis
    by (simp add: tr co c0 kk pr k)
qed


theorem self_sign_is_CA_witness:
  "fst (SignWith x509Env (Some 0) (Some 0) rootState) = None
   \<and> map_option BasicConstraintsValid (certOf rootState (Some 0)) = Some True
   \<and> (case certOf (snd (SignWith x509Env (Some 0) (Some 0) rootState)) (Some 0) of
        None \<Rightarrow> False
      | Some c \<Rightarrow> IsCA c \<and> KeyUsage c AND caKeyUsages = caKeyUsages \<and> Issuer c = Subject c)"
proof -
  let ?r = "SignWith x509Env (Some 0) (Some 0) rootState"
  let ?c0 = "zeroCertificate\<lparr>SerialNumber := Some 4242, Subject := rootName,
                              BasicConstraintsValid := True\<rparr>"
  let ?pr = "\<lparr>Cert = Some 0, Key = Some (ECDSAPrivateKey [1]), KeyBits_p = 256\<rparr>"
  have h: "fst ?r = None"
    by (simp add: model_defs sample_defs x509Env_def rootState_def modelCreate_def
          modelParse_def encName_def decName_def encStrings_def byteOfChar_def charOfByte_def
          Let_def)
  have h': "?r = (None, snd ?r)"
    using h by (simp add: prod_eq_iff)
  have 2: "pairAt rootState (Some 0) = Some ?pr"
    by (simp add: pairAt_def rootState_def)
  have 3: "Key ?pr = Some (ECDSAPrivateKey [1])"
    by simp
  have 4: "certOf rootState (Some 0) = Some ?c0"
    by (simp add: certOf_def pairAt_def certAt_def rootState_def)
  have 5: "BasicConstraintsValid ?c0"
    by simp
  from self_sign_is_CA[OF h' 2 3 4 5 modelLibrary_contract] h 4 show ?thesis
    by simp
qed


text \<open>
  The claim C4 itself does not hold for every pair: a pair whose certificate has a serial
  number and a subject but not the flag \<open>BasicConstraintsValid\<close> signs itself with
  success, and the certificate it then holds is not a CA certificate.
\<close>

theorem self_sign_without_basic_constraints:
  "fst (SignWith x509Env (Some 0) (Some 0) bareState) = None
   \<and> map_option BasicConstraintsValid (certOf bareState (Some 0)) = Some False
   \<and> map_option IsCA (certOf (snd (SignWith x509Env (Some 0) (Some 0) bareState)) (Some 0))
       = Some False"
  by (simp add: model_defs sample_defs x509Env_def bareState_def modelCreate_def modelParse_def
        certOf_def encName_def decName_def encStrings_def byteOfChar_def charOfByte_def Let_def)


section \<open>Initialising an authority\<close>

text \<open>
  Claim C9. Whenever \<open>Init\<close> fails, with an error or a panic, at any of its steps, the
  authority is returned as it was, so its \<open>Pair\<close> field is the pointer it held before.
  When \<open>Init\<close> succeeds, the pair was created, the directory was made, the pair signed
  itself and the files were written, in this order and each without error, and only the
  \<open>Pair\<close> field of the authority has changed, to the new pair. In either case the pairs
  and certificates that existed before the call are unchanged, the old pair of the authority
  among them.
\<close>

theorem Init_error_keeps_pair:
  assumes "Init E ca t dir s = (r, ca', s')"
  shows "(r \<noteq> None \<longrightarrow> ca' = ca)
     \<and> (r = None \<longrightarrow>
          (\<exists>pair s1 s3. NewCAPair E t s = (Inr pair, s1)
             \<and> MkdirAll E (trace s1) dir 448 = None
             \<and> SignWith E (Some pair) (Some pair) (emit (EvMkdirAll dir 448) s1) = (None, s3)
             \<and> WriteFiles E (Some pair) (filepathJoin E dir (CertFileName ca))
                  (filepathJoin E dir (KeyFileName ca)) s3 = (None, s')
             \<and> ca' = ca\<lparr>CAPair := Some pair\<rparr>))
     \<and> take (length (pairs s)) (pairs s') = pairs s
     \<and> take (length (certs s)) (certs s') = certs s"
proof -
  obtain r1 s1 where n: "NewCAPair E t s = (r1, s1)" by (cases "NewCAPair E t s")
  show ?thesis
  proof (cases r1)
    case (Inl e)
    with n assms NewCAPair_Inl[of E t s e s1] show ?thesis
      by (auto simp: Init_def)
  next
    case (Inr pair)
    from NewCAPair_Inr[of E t s pair s1] n Inr obtain k where
      pr: "pair = length (pairs s)" and cl: "length (certs s1) = Suc (length (certs s))"
      and ct: "take (length (certs s)) (certs s1) = certs s"
      and ps: "pairs s1 = pairs s @ [\<lparr>Cert = Some (length (certs s)), Key = Some k,
                                      KeyBits_p = KeyBits t\<rparr>]"
      by auto
    let ?s2 = "emit (EvMkdirAll dir 448) s1"
    have pt: "take (length (pairs s)) (pairs s1) = pairs s" using ps by simp
    show ?thesis
    proof (cases "MkdirAll E (trace s1) dir 448")
      case (Some e)
      with n Inr assms pt ct show ?thesis by (auto simp: Init_def)
    next
      case None
      obtain r3 s3 where sg: "SignWith E (Some pair) (Some pair) ?s2 = (r3, s3)"
        by (cases "SignWith E (Some pair) (Some pair) ?s2")
      have "take (length (pairs s)) (pairs s3) = take (length (pairs s)) (pairs ?s2)
         \<and> take (length (certs s)) (certs s3) = take (length (certs s)) (certs ?s2)"
        using sg pr ps
        by (intro SignWith_frame[of E pair "Some pair" ?s2 r3 s3 "length (certs s)"]) simp_all
      then have f3: "take (length (pairs s)) (pairs s3) = pairs s
         \<and> take (length (certs s)) (certs s3) = certs s"
        using pt ct by simp
      let ?cp = "filepathJoin E dir (CertFileName ca)"
      let ?kp = "filepathJoin E dir (KeyFileName ca)"
      obtain r4 s4 where w: "WriteFiles E (Some pair) ?cp ?kp s3 = (r4, s4)"
        by (cases "WriteFiles E (Some pair) ?cp ?kp s3")
      have f4: "pairs s4 = pairs s3 \<and> certs s4 = certs s3"
        using WriteFiles_frame[of E "Some pair" ?cp ?kp s3] w by simp
      show ?thesis using n Inr None sg w assms f3 f4
        by (auto simp: Init_def Let_def split: option.splits)
    qed
  qed
qed

theorem Init_error_keeps_pair_witness:
  "fst (Init readOnlyEnv freshCA rootTemplate ''/ca'' freshState)
     = Some (Error ''failed to create CA directory /ca: permission denied'')
   \<and> fst (snd (Init readOnlyEnv freshCA rootTemplate ''/ca'' freshState)) = freshCA
   \<and> fst (Init sampleEnv freshCA rootTemplate ''/ca'' freshState) = None
   \<and> fst (snd (Init sampleEnv freshCA rootTemplate ''/ca'' freshState))
       = freshCA\<lparr>CAPair := Some 1\<rparr>"
proof -
  let ?r = "Init readOnlyEnv freshCA rootTemplate ''/ca'' freshState"
  let ?q = "Init sampleEnv freshCA rootTemplate ''/ca'' freshState"
  have h: "fst ?r = Some (Error ''failed to create CA directory /ca: permission denied'')"
    by (simp add: model_defs sample_defs readOnlyEnv_def freshCA_def freshState_def
          rootTemplate_def Let_def)
  have g: "fst ?q = None"
    by (simp add: model_defs sample_defs readOnlyEnv_def freshCA_def freshState_def
          rootTemplate_def Let_def)
  have n: "fst (NewCAPair sampleEnv rootTemplate freshState) = Inr 1"
    by (simp add: model_defs sample_defs readOnlyEnv_def freshCA_def freshState_def
          rootTemplate_def Let_def)
  have r: "?r = (fst ?r, fst (snd ?r), snd (snd ?r))"
    and q: "?q = (fst ?q, fst (snd ?q), snd (snd ?q))"
    by simp_all
  from Init_error_keeps_pair[OF r] h have 1: "fst (snd ?r) = freshCA"
    by simp
  from Init_error_keeps_pair[OF q] g n have 2: "fst (snd ?q) = freshCA\<lparr>CAPair := Some 1\<rparr>"
    by auto
  from h g 1 2 show ?thesis by simp
qed

end
